theory Spec2Isabelle
  imports Main
begin

section \<open>JavaScript values as the accessor reads them\<close>

text \<open>
  \<^verbatim>\<open>dbentity.js\<close> moves primitive values between caller objects, SQL text and
  bound parameters. A value is \<^verbatim>\<open>undefined\<close>, \<^verbatim>\<open>null\<close>, a boolean, a number or
  a string. Numbers are the integers (row counts, keys, limits); their text is the decimal
  one. An object (a row, a template, a save object, an engine error) is the list of its own
  enumerable properties in the order in which \<^verbatim>\<open>_.each\<close> visits them; its keys are
  pairwise distinct and reading an absent key gives \<^verbatim>\<open>undefined\<close>.
\<close>

datatype jsval = JUndefined | JNull | JBool bool | JNum int | JStr string

type_synonym obj = "(string \<times> jsval) list"

text \<open>\<^verbatim>\<open>_.isNil(v)\<close>: \<^verbatim>\<open>v\<close> is \<^verbatim>\<open>null\<close> or \<^verbatim>\<open>undefined\<close>.\<close>

fun isNil :: "jsval \<Rightarrow> bool" where
  "isNil JUndefined = True"
| "isNil JNull = True"
| "isNil _ = False"

fun digits :: "nat \<Rightarrow> string" where
  "digits n =
     (if n < 10 then [''0123456789'' ! n] else digits (n div 10) @ [''0123456789'' ! (n mod 10)])"

declare digits.simps [simp del]

definition show_int :: "int \<Rightarrow> string" where
  "show_int i = (if i < 0 then CHR ''-'' # digits (nat (- i)) else digits (nat i))"

text \<open>The text of a value where the code concatenates it with a string (\<^verbatim>\<open>'' + v\<close>).\<close>

fun to_string :: "jsval \<Rightarrow> string" where
  "to_string JUndefined = ''undefined''"
| "to_string JNull = ''null''"
| "to_string (JBool b) = (if b then ''true'' else ''false'')"
| "to_string (JNum i) = show_int i"
| "to_string (JStr s) = s"

text \<open>lodash converts its string argument with its own \<^verbatim>\<open>toString\<close>, which maps
  \<^verbatim>\<open>null\<close> and \<^verbatim>\<open>undefined\<close> to the empty string.\<close>

definition lodash_toString :: "jsval \<Rightarrow> string" where
  "lodash_toString v = (if isNil v then [] else to_string v)"

text \<open>\<^verbatim>\<open>_.startsWith(string, target)\<close>.\<close>

definition startsWith :: "jsval \<Rightarrow> string \<Rightarrow> bool" where
  "startsWith v target = (take (length target) (lodash_toString v) = target)"

text \<open>\<^verbatim>\<open>o[k]\<close> and \<^verbatim>\<open>o[k] = v\<close> on an object.\<close>

definition oget :: "obj \<Rightarrow> string \<Rightarrow> jsval" where
  "oget ob k = (case map_of ob k of None \<Rightarrow> JUndefined | Some v \<Rightarrow> v)"

fun oset :: "obj \<Rightarrow> string \<Rightarrow> jsval \<Rightarrow> obj" where
  "oset [] k v = [(k, v)]"
| "oset ((k', v') # rest) k v = (if k' = k then (k, v) # rest else (k', v') # oset rest k v)"

text \<open>What a promise is rejected with, or what a callback throws: the engine's error
  object, an \<^verbatim>\<open>Error\<close> made by this module, the \<^verbatim>\<open>ReferenceError\<close> of the
  runtime, or a bare value.\<close>

datatype jserr = DbErr obj | Error string | ReferenceError string | Reason jsval

fun err_code :: "jserr \<Rightarrow> jsval" where
  "err_code (DbErr e) = oget e ''code''"
| "err_code (Error m) = JUndefined"
| "err_code (ReferenceError m) = JUndefined"
| "err_code (Reason v) = JUndefined"

section \<open>Column metadata\<close>

text \<open>
  One entry of \<^verbatim>\<open>self.metadata\<close>, as \<^verbatim>\<open>fetchMetadata\<close> makes it. The name, the
  type and the default are what the engine reported; the flags are the results of the
  comparisons. The field \<^verbatim>\<open>default\<close> is \<open>default_value\<close> here.
\<close>

record column_md =
  column :: jsval
  sql_type :: jsval
  pk :: bool
  nullable :: bool
  default_value :: jsval
  autoincrement :: bool
  is_updated_timestamp :: bool
  is_created_timestamp :: bool
  is_updated_version :: bool

section \<open>Value coercion\<close>

text \<open>
  \<^verbatim>\<open>moment\<close> is a library outside the repository. Its parser is a parameter:
  \<open>m v = Some s\<close> when the library can read \<open>v\<close> as a date, \<open>s\<close> being its
  rendering with the pattern \<^verbatim>\<open>YYYY-MM-DD HH:mm:ss\<close> in the time zone of the process,
  and \<open>m v = None\<close> when it cannot. The library formats a value it could not read as the
  text \<^verbatim>\<open>Invalid date\<close>; it does not throw.
\<close>

type_synonym moment_lib = "jsval \<Rightarrow> string option"

definition moment_format :: "moment_lib \<Rightarrow> jsval \<Rightarrow> string" where
  "moment_format m v = (case m v of None \<Rightarrow> ''Invalid date'' | Some s \<Rightarrow> s)"

definition transformToSafeValue :: "moment_lib \<Rightarrow> jsval \<Rightarrow> column_md \<Rightarrow> jserr + jsval" where
  "transformToSafeValue m input col =
     (let datatype = sql_type col; nullable = nullable col in
      if input = JStr [] then
        (if datatype = JStr ''datetime'' \<or> datatype = JStr ''timestamp''
            \<or> startsWith datatype ''int'' \<or> startsWith datatype ''num''
            \<or> startsWith datatype ''dec''
         then (if nullable then Inr JNull
               else Inl (Error (to_string (column col) @ '' is not permitted to be empty.'')))
         else Inr input)
      else if \<not> isNil input then
        (if datatype = JStr ''datetime'' \<or> datatype = JStr ''timestamp''
         then Inr (JStr (moment_format m input))
         else Inr input)
      else Inr input)"

section \<open>The handle, the execution collaborator and the logger\<close>

text \<open>
  \<^verbatim>\<open>self.options\<close>: the three special column names, each a string or absent.
\<close>

record options =
  created_timestamp_column :: jsval
  updated_timestamp_column :: jsval
  version_number_column :: jsval
  log_category :: jsval

text \<open>
  \<^verbatim>\<open>results\<close> as the driver hands it to the callback of \<^verbatim>\<open>pool.query\<close>, as far
  as this module reads it: the elements that \<^verbatim>\<open>_.each\<close>, \<^verbatim>\<open>.length\<close> and
  \<^verbatim>\<open>[0]\<close> see (the rows of a \<^verbatim>\<open>SHOW COLUMNS\<close> or a \<^verbatim>\<open>SELECT\<close>), and the
  properties \<^verbatim>\<open>affectedRows\<close> and \<^verbatim>\<open>insertId\<close> of the packet of a write, absent
  on an array of rows. An answer is an error object or a result.
\<close>

record results =
  rows :: "obj list"
  affectedRows :: "int option"
  insertId :: "int option"

type_synonym response = "obj + results"

type_synonym exchange = "string \<times> jsval list \<times> response"

text \<open>
  The pool is the external collaborator: it answers a statement and its parameters, and its
  answer may depend on every exchange before. The handle holds it as \<^verbatim>\<open>self.pool\<close>.
\<close>

record DbEntity =
  pool :: "exchange list \<Rightarrow> string \<Rightarrow> jsval list \<Rightarrow> response"
  table :: string
  entity :: string
  options :: options
  metadata :: "column_md list option"

datatype level = ERROR | WARN | INFO | DEBUG | TRACE

text \<open>
  What is outside the handle: the exchanges with the pool so far, oldest first, and the lines
  given to the module-level \<^verbatim>\<open>LOGGER\<close>. A line is its severity and the literal text of
  the message; the \<^verbatim>\<open>JSON.stringify\<close> rendering that the code appends to some
  messages is not part of the model.
\<close>

record world =
  exchanges :: "exchange list"
  logged :: "(level \<times> string) list"

definition LOGGER :: "level \<Rightarrow> string \<Rightarrow> world \<Rightarrow> world" where
  "LOGGER lv msg w = w\<lparr>logged := logged w @ [(lv, msg)]\<rparr>"

text \<open>The constructor, without the plural name, which no operation reads.\<close>

definition default_options :: options where
  "default_options =
     \<lparr>created_timestamp_column = JStr ''created'',
      updated_timestamp_column = JStr ''updated'',
      version_number_column = JStr ''version'',
      log_category = JStr ''db''\<rparr>"

definition new_DbEntity ::
  "string \<Rightarrow> string \<Rightarrow> options option \<Rightarrow> (exchange list \<Rightarrow> string \<Rightarrow> jsval list \<Rightarrow> response) \<Rightarrow> DbEntity" where
  "new_DbEntity tbl ent opts pl =
     \<lparr>pool = pl, table = tbl, entity = ent,
      options = (case opts of None \<Rightarrow> default_options | Some ob \<Rightarrow> ob),
      metadata = None\<rparr>"

datatype 'a outcome = Resolved 'a | Rejected jserr

text \<open>\<^verbatim>\<open>callDb\<close>: one call of \<^verbatim>\<open>pool.query\<close>; the promise is rejected with the
  error object if there is one and resolved with the results otherwise.\<close>

definition callDb :: "DbEntity \<Rightarrow> string \<Rightarrow> jsval list \<Rightarrow> world \<Rightarrow> response \<times> world" where
  "callDb self sql parms w =
     (let r = pool self (exchanges w) sql parms
      in (r, w\<lparr>exchanges := exchanges w @ [(sql, parms, r)]\<rparr>))"

section \<open>Schema introspection\<close>

definition show_columns_sql :: "DbEntity \<Rightarrow> string" where
  "show_columns_sql self = ''SHOW COLUMNS FROM '' @ table self @ '';''"

text \<open>The body of the \<^verbatim>\<open>_.each\<close> callback of \<^verbatim>\<open>fetchMetadata\<close>: one reported
  column becomes one metadata entry.\<close>

definition column_of_item :: "options \<Rightarrow> obj \<Rightarrow> column_md" where
  "column_of_item opts item =
     \<lparr>column = oget item ''Field'',
      sql_type = oget item ''Type'',
      pk = (oget item ''Key'' = JStr ''PRI''),
      nullable = (oget item ''Null'' = JStr ''YES''),
      default_value = oget item ''Default'',
      autoincrement = (oget item ''Extra'' = JStr ''auto_increment''),
      is_updated_timestamp =
        (\<not> isNil (updated_timestamp_column opts) \<and> oget item ''Field'' = updated_timestamp_column opts),
      is_created_timestamp =
        (\<not> isNil (created_timestamp_column opts) \<and> oget item ''Field'' = created_timestamp_column opts),
      is_updated_version =
        (\<not> isNil (version_number_column opts) \<and> oget item ''Field'' = version_number_column opts)\<rparr>"

text \<open>
  \<^verbatim>\<open>fetchMetadata\<close> has one suspension point, the callback of \<^verbatim>\<open>pool.query\<close>.
  \<open>fetchMetadata_then\<close> and \<open>fetchMetadata_catch\<close> are what runs when the answer
  arrives; \<open>fetchMetadata\<close> is the whole call when nothing else runs in between.
\<close>

definition fetchMetadata_then ::
  "results \<Rightarrow> DbEntity \<Rightarrow> world \<Rightarrow> column_md list outcome \<times> DbEntity \<times> world" where
  "fetchMetadata_then res self w =
     (let w1 = LOGGER TRACE (entity self @ '' fetchMetadata raw results:'') w;
          md = map (column_of_item (options self)) (rows res);
          w2 = LOGGER TRACE ''Finalized Metadata: '' w1
      in (Resolved md, self\<lparr>metadata := Some md\<rparr>, w2))"

definition fetchMetadata_catch ::
  "jserr \<Rightarrow> DbEntity \<Rightarrow> world \<Rightarrow> column_md list outcome \<times> DbEntity \<times> world" where
  "fetchMetadata_catch err self w =
     (Rejected err, self, LOGGER ERROR (entity self @ '' fetchMetadata error. Details: '') w)"

definition fetchMetadata :: "DbEntity \<Rightarrow> world \<Rightarrow> column_md list outcome \<times> DbEntity \<times> world" where
  "fetchMetadata self w =
     (case metadata self of
        None \<Rightarrow>
          (case callDb self (show_columns_sql self) [] w of
             (Inl err, w1) \<Rightarrow> fetchMetadata_catch (DbErr err) self w1
           | (Inr res, w1) \<Rightarrow> fetchMetadata_then res self w1)
      | Some md \<Rightarrow> (Resolved md, self, LOGGER TRACE ''(Metadata already loaded)'' w))"

section \<open>Trailing clauses of a select\<close>

record query_opts =
  orderBy :: "string list option"
  limit :: jsval
  offset :: jsval
  booleanMode :: jsval

text \<open>One round of the loop over \<^verbatim>\<open>opts.orderBy\<close>: the sign is stripped and decides
  the direction.\<close>

definition order_term :: "string \<Rightarrow> string" where
  "order_term colname =
     (if take 1 colname = ''-'' then drop 1 colname @ '' '' @ ''DESC''
      else if take 1 colname = ''+'' then drop 1 colname @ '' '' @ ''ASC''
      else colname @ '' '' @ ''ASC'')"

fun orderBy_loop :: "string list \<Rightarrow> nat \<Rightarrow> string \<Rightarrow> string" where
  "orderBy_loop [] i ordBy = ordBy"
| "orderBy_loop (colname # rest) i ordBy =
     orderBy_loop rest (Suc i) ((if i > 0 then ordBy @ '', '' else ordBy) @ order_term colname)"

text \<open>The loop over the primary-key columns when the caller gave no order: the column goes
  to \<^verbatim>\<open>sql\<close>, the separator to \<^verbatim>\<open>orderBy\<close>.\<close>

fun pks_loop :: "column_md list \<Rightarrow> nat \<Rightarrow> string \<times> string \<Rightarrow> string \<times> string" where
  "pks_loop [] i (sql, ordBy) = (sql, ordBy)"
| "pks_loop (c # rest) i (sql, ordBy) =
     pks_loop rest (Suc i)
       (sql @ to_string (column c) @ '' ASC'', if i > 0 then ordBy @ '', '' else ordBy)"

text \<open>\<^verbatim>\<open>self.metadata\<close> where lodash filters or searches it: nothing before the load.\<close>

definition metadata_list :: "DbEntity \<Rightarrow> column_md list" where
  "metadata_list self = (case metadata self of None \<Rightarrow> [] | Some md \<Rightarrow> md)"

definition appendOrderByAndLimit :: "DbEntity \<Rightarrow> string \<Rightarrow> query_opts option \<Rightarrow> string" where
  "appendOrderByAndLimit self sql opts =
     (let ordBy =
            (case opts of
               None \<Rightarrow> []
             | Some ob \<Rightarrow>
                 (case orderBy ob of
                    None \<Rightarrow> []
                  | Some toks \<Rightarrow>
                      if length toks > 0 then orderBy_loop toks 0 '' ORDER BY '' else []));
          lim =
            (case opts of
               None \<Rightarrow> []
             | Some ob \<Rightarrow>
                 (if \<not> isNil (limit ob) then '' LIMIT '' @ to_string (limit ob)
                  else '' LIMIT 1000'')
                 @ (if \<not> isNil (offset ob) then '' OFFSET '' @ to_string (offset ob) else []))
      in if ordBy = [] then
           (case pks_loop (filter pk (metadata_list self)) 0 (sql @ '' ORDER BY '', ordBy) of
              (sql1, ordBy1) \<Rightarrow> sql1 @ ordBy1 @ lim)
         else sql @ ordBy @ lim)"

section \<open>Statements\<close>

text \<open>The loop of \<^verbatim>\<open>find\<close> and \<^verbatim>\<open>deleteMatching\<close> over the entries of a template:
  one equality per entry, joined by the boolean mode, the values bound as they are.\<close>

fun template_loop :: "string \<Rightarrow> obj \<Rightarrow> string \<times> jsval list \<Rightarrow> string \<times> jsval list" where
  "template_loop bl [] (wh, parms) = (wh, parms)"
| "template_loop bl ((k, v) # rest) (wh, parms) =
     template_loop bl rest ((if wh \<noteq> [] then wh @ bl else wh) @ k @ ''=?'', parms @ [v])"

text \<open>The loop of \<^verbatim>\<open>update\<close> and \<^verbatim>\<open>deleteOne\<close> over the primary-key columns: the
  values are read from the object.\<close>

fun pk_where_loop :: "obj \<Rightarrow> column_md list \<Rightarrow> string \<times> jsval list \<Rightarrow> string \<times> jsval list" where
  "pk_where_loop ob [] (wh, parms) = (wh, parms)"
| "pk_where_loop ob (col # rest) (wh, parms) =
     pk_where_loop ob rest
       ((if wh \<noteq> [] then wh @ '' AND '' else wh) @ to_string (column col) @ ''=?'',
        parms @ [oget ob (to_string (column col))])"

definition get_query :: "DbEntity \<Rightarrow> jsval \<Rightarrow> string \<times> jsval list" where
  "get_query self idv = (''SELECT * FROM '' @ table self @ '' WHERE id = ?'', [idv])"

definition all_query :: "DbEntity \<Rightarrow> query_opts option \<Rightarrow> string \<times> jsval list" where
  "all_query self opts =
     (appendOrderByAndLimit self (''SELECT * FROM '' @ table self @ '' '') opts, [])"

definition find_query :: "DbEntity \<Rightarrow> obj \<Rightarrow> query_opts option \<Rightarrow> string \<times> jsval list" where
  "find_query self query opts =
     (let sql = ''SELECT * FROM '' @ table self @ '' '';
          bl = (case opts of
                  None \<Rightarrow> '' AND ''
                | Some ob \<Rightarrow>
                    if \<not> isNil (booleanMode ob) then '' '' @ to_string (booleanMode ob) @ '' ''
                    else '' AND '');
          sql = sql @ '' WHERE ''
      in case template_loop bl query ([], []) of
           (wh, parms) \<Rightarrow> (appendOrderByAndLimit self (sql @ wh) opts, parms))"

text \<open>\<^verbatim>\<open>selectWhere\<close> hands \<^verbatim>\<open>[]\<close> to \<^verbatim>\<open>callDb\<close>; \<^verbatim>\<open>parms\<close> goes to the
  debug line only.\<close>

definition selectWhere_query ::
  "DbEntity \<Rightarrow> string \<Rightarrow> jsval list \<Rightarrow> query_opts option \<Rightarrow> string \<times> jsval list" where
  "selectWhere_query self wh parms opts =
     (let sql = ''SELECT * FROM '' @ table self @ '' '';
          sql = sql @ '' WHERE '';
          sql = sql @ wh
      in (appendOrderByAndLimit self sql opts, []))"

fun create_loop ::
  "moment_lib \<Rightarrow> DbEntity \<Rightarrow> obj \<Rightarrow> column_md list \<Rightarrow> string \<times> string \<times> jsval list
     \<Rightarrow> jserr + (string \<times> string \<times> jsval list)" where
  "create_loop m self save [] (cols, vals, parms) = Inr (cols, vals, parms)"
| "create_loop m self save (col # rest) (cols, vals, parms) =
     (let cols1 = (if cols \<noteq> [] then cols @ '', '' else cols) @ to_string (column col);
          vals1 = (if vals \<noteq> [] then vals @ '', '' else vals)
      in if column col = created_timestamp_column (options self)
         then create_loop m self save rest (cols1, vals1 @ ''CURRENT_TIMESTAMP'', parms)
         else if column col = updated_timestamp_column (options self)
         then create_loop m self save rest (cols1, vals1 @ ''CURRENT_TIMESTAMP'', parms)
         else if column col = version_number_column (options self)
         then create_loop m self save rest (cols1, vals1 @ ''0'', parms)
         else (case transformToSafeValue m (oget save (to_string (column col))) col of
                 Inl e \<Rightarrow> Inl e
               | Inr v \<Rightarrow> create_loop m self save rest (cols1, vals1 @ ''?'', parms @ [v])))"

definition create_query :: "moment_lib \<Rightarrow> DbEntity \<Rightarrow> obj \<Rightarrow> jserr + (string \<times> jsval list)" where
  "create_query m self save =
     (let not_ai_pks =
            filter (\<lambda>col. (pk col \<and> \<not> autoincrement col) \<or> \<not> pk col) (metadata_list self)
      in case create_loop m self save not_ai_pks ([], [], []) of
           Inl e \<Rightarrow> Inl e
         | Inr (cols, vals, parms) \<Rightarrow>
             Inr (''INSERT INTO '' @ table self @ '' ('' @ cols @ '') VALUES ('' @ vals @ '');'',
                  parms))"

text \<open>The loop of \<^verbatim>\<open>update\<close> over the entries of the save object.\<close>

fun update_loop ::
  "moment_lib \<Rightarrow> DbEntity \<Rightarrow> column_md list \<Rightarrow> obj \<Rightarrow> string \<times> jsval list
     \<Rightarrow> jserr + (string \<times> jsval list)" where
  "update_loop m self not_pks [] (sets, parms) = Inr (sets, parms)"
| "update_loop m self not_pks ((k, v) # rest) (sets, parms) =
     (case find (\<lambda>c. column c = JStr k) not_pks of
        None \<Rightarrow> update_loop m self not_pks rest (sets, parms)
      | Some col \<Rightarrow>
          if column col = created_timestamp_column (options self)
          then update_loop m self not_pks rest (sets, parms)
          else
            (let sets1 = (if sets \<noteq> [] then sets @ '', '' else sets)
             in if column col = version_number_column (options self)
                then update_loop m self not_pks rest
                       (sets1 @ to_string (version_number_column (options self)) @ ''=''
                          @ to_string (version_number_column (options self)) @ ''+1'', parms)
                else if column col = updated_timestamp_column (options self)
                then update_loop m self not_pks rest
                       (sets1 @ to_string (column col) @ ''=CURRENT_TIMESTAMP'', parms)
                else (case transformToSafeValue m v col of
                        Inl e \<Rightarrow> Inl e
                      | Inr parmVal \<Rightarrow>
                          update_loop m self not_pks rest
                            (sets1 @ to_string (column col) @ ''=?'',
                             parms @ [if isNil parmVal then JNull else parmVal]))))"

definition update_query :: "moment_lib \<Rightarrow> DbEntity \<Rightarrow> obj \<Rightarrow> jserr + (string \<times> jsval list)" where
  "update_query m self save =
     (let sql = ''UPDATE '' @ table self @ '' SET '';
          not_pks = filter (\<lambda>col. \<not> pk col) (metadata_list self)
      in case update_loop m self not_pks save ([], []) of
           Inl e \<Rightarrow> Inl e
         | Inr (sets, parms) \<Rightarrow>
             (case pk_where_loop save (filter pk (metadata_list self)) ([], parms) of
                (wh, parms1) \<Rightarrow> Inr (sql @ sets @ '' WHERE '' @ wh, parms1)))"

definition deleteOne_query :: "DbEntity \<Rightarrow> obj \<Rightarrow> string \<times> jsval list" where
  "deleteOne_query self toDelete =
     (case pk_where_loop toDelete (filter pk (metadata_list self)) ([], []) of
        (wh, parms) \<Rightarrow> (''DELETE FROM '' @ table self @ '' WHERE '' @ wh, parms))"

definition delete_query :: "DbEntity \<Rightarrow> jsval \<Rightarrow> string \<times> jsval list" where
  "delete_query self idv = (''DELETE FROM '' @ table self @ '' WHERE id = ?'', [idv])"

text \<open>The callback of \<^verbatim>\<open>deleteMatching\<close> appends to a variable \<^verbatim>\<open>sql\<close> that is
  declared nowhere: reading it throws before any statement exists.\<close>

definition deleteMatching_query :: "DbEntity \<Rightarrow> obj \<Rightarrow> jserr + (string \<times> jsval list)" where
  "deleteMatching_query self criteria = Inl (ReferenceError ''sql is not defined'')"

definition deleteWhere_query :: "DbEntity \<Rightarrow> string \<Rightarrow> jsval list \<Rightarrow> string \<times> jsval list" where
  "deleteWhere_query self wh parms = (''DELETE FROM '' @ table self @ '' WHERE '' @ wh, parms)"

section \<open>The public operations\<close>

text \<open>
  An operation used alone runs its promise chain to the end: the metadata is ensured, the
  statement is built and handed to \<^verbatim>\<open>callDb\<close>, the result is shaped; an error of any
  step goes to the one \<^verbatim>\<open>catch\<close> handler. It returns how its promise settles, the
  handle and the world. The part of each first callback that builds the statement is a
  function of its own (\<open>get_query\<close>, \<open>find_query\<close>, ...). \<^verbatim>\<open>find\<close> and
  \<^verbatim>\<open>one\<close> are \<open>find_rows\<close> and \<open>one_row\<close> here.
\<close>

definition packet_value :: "int option \<Rightarrow> jsval" where
  "packet_value n = (case n of None \<Rightarrow> JUndefined | Some i \<Rightarrow> JNum i)"

definition first_or_empty :: "results \<Rightarrow> obj" where
  "first_or_empty res = (case rows res of [] \<Rightarrow> [] | r # _ \<Rightarrow> r)"

definition get :: "jsval \<Rightarrow> DbEntity \<Rightarrow> world \<Rightarrow> obj outcome \<times> DbEntity \<times> world" where
  "get idv self w =
     (case fetchMetadata self (LOGGER DEBUG (entity self @ '' get...'') w) of
        (Rejected err, self1, w1) \<Rightarrow>
          (Rejected err, self1, LOGGER ERROR (entity self @ '' get error. Details:\<newline>'') w1)
      | (Resolved md, self1, w1) \<Rightarrow>
          (case get_query self1 idv of
             (sql, parms) \<Rightarrow>
               (case callDb self1 sql parms (LOGGER DEBUG (''  query sql: '' @ sql) w1) of
                  (Inl err, w2) \<Rightarrow>
                    (Rejected (DbErr err), self1,
                     LOGGER ERROR (entity self @ '' get error. Details:\<newline>'') w2)
                | (Inr res, w2) \<Rightarrow>
                    (Resolved (first_or_empty res), self1,
                     LOGGER TRACE (entity self @ '' get results:'') w2))))"

definition all :: "query_opts option \<Rightarrow> DbEntity \<Rightarrow> world \<Rightarrow> results outcome \<times> DbEntity \<times> world" where
  "all opts self w =
     (case fetchMetadata self (LOGGER DEBUG (entity self @ '' all...'') w) of
        (Rejected err, self1, w1) \<Rightarrow>
          (Rejected err, self1, LOGGER ERROR (entity self @ '' all error. Details:\<newline>'') w1)
      | (Resolved md, self1, w1) \<Rightarrow>
          (case all_query self1 opts of
             (sql, parms) \<Rightarrow>
               (case callDb self1 sql parms (LOGGER DEBUG (''  query sql: '' @ sql) w1) of
                  (Inl err, w2) \<Rightarrow>
                    (Rejected (DbErr err), self1,
                     LOGGER ERROR (entity self @ '' all error. Details:\<newline>'') w2)
                | (Inr res, w2) \<Rightarrow>
                    (Resolved res, self1, LOGGER DEBUG (entity self @ '' all results:'') w2))))"

definition find_rows ::
  "obj \<Rightarrow> query_opts option \<Rightarrow> DbEntity \<Rightarrow> world \<Rightarrow> results outcome \<times> DbEntity \<times> world" where
  "find_rows query opts self w =
     (case fetchMetadata self (LOGGER DEBUG (entity self @ '' find...'') w) of
        (Rejected err, self1, w1) \<Rightarrow>
          (Rejected err, self1, LOGGER ERROR (entity self @ '' find error. Details:\<newline>'') w1)
      | (Resolved md, self1, w1) \<Rightarrow>
          (case find_query self1 query opts of
             (sql, parms) \<Rightarrow>
               (case callDb self1 sql parms
                       (LOGGER DEBUG ''  query parms: '' (LOGGER DEBUG (''  query sql: '' @ sql) w1)) of
                  (Inl err, w2) \<Rightarrow>
                    (Rejected (DbErr err), self1,
                     LOGGER ERROR (entity self @ '' find error. Details:\<newline>'') w2)
                | (Inr res, w2) \<Rightarrow>
                    (Resolved res, self1, LOGGER DEBUG (entity self @ '' find results:'') w2))))"

definition one_row ::
  "obj \<Rightarrow> query_opts option \<Rightarrow> DbEntity \<Rightarrow> world \<Rightarrow> obj outcome \<times> DbEntity \<times> world" where
  "one_row query opts self w =
     (case find_rows query opts self w of
        (Rejected err, self1, w1) \<Rightarrow> (Rejected err, self1, w1)
      | (Resolved res, self1, w1) \<Rightarrow> (Resolved (first_or_empty res), self1, w1))"

definition selectWhere ::
  "string \<Rightarrow> jsval list \<Rightarrow> query_opts option \<Rightarrow> DbEntity \<Rightarrow> world
     \<Rightarrow> results outcome \<times> DbEntity \<times> world" where
  "selectWhere wh parms opts self w =
     (case fetchMetadata self (LOGGER DEBUG (entity self @ '' selectWhere...'') w) of
        (Rejected err, self1, w1) \<Rightarrow>
          (Rejected err, self1,
           LOGGER ERROR (entity self @ '' selectWhere error. Details:\<newline>'') w1)
      | (Resolved md, self1, w1) \<Rightarrow>
          (case selectWhere_query self1 wh parms opts of
             (sql, parms1) \<Rightarrow>
               (case callDb self1 sql parms1
                       (LOGGER DEBUG ''  query parms: '' (LOGGER DEBUG (''  query sql: '' @ sql) w1)) of
                  (Inl err, w2) \<Rightarrow>
                    (Rejected (DbErr err), self1,
                     LOGGER ERROR (entity self @ '' selectWhere error. Details:\<newline>'') w2)
                | (Inr res, w2) \<Rightarrow>
                    (Resolved res, self1,
                     LOGGER DEBUG (entity self @ '' selectWhere results:'') w2))))"

text \<open>After an insert that touched a row and reports a positive generated id, the id is
  written to the auto-increment key of the save object.\<close>

definition set_generated_key :: "DbEntity \<Rightarrow> results \<Rightarrow> obj \<Rightarrow> obj" where
  "set_generated_key self res save =
     (case (affectedRows res, insertId res) of
        (Some a, Some i) \<Rightarrow>
          if a > 0 \<and> i > 0 then
            (case find (\<lambda>c. autoincrement c \<and> pk c) (metadata_list self) of
               None \<Rightarrow> save
             | Some keyCol \<Rightarrow> oset save (to_string (column keyCol)) (JNum i))
          else save
      | _ \<Rightarrow> save)"

definition create ::
  "moment_lib \<Rightarrow> obj \<Rightarrow> query_opts option \<Rightarrow> DbEntity \<Rightarrow> world
     \<Rightarrow> obj outcome \<times> DbEntity \<times> world" where
  "create m save opts self w =
     (case fetchMetadata self (LOGGER DEBUG (entity self @ '' create...'') w) of
        (Rejected err, self1, w1) \<Rightarrow>
          (Rejected err, self1, LOGGER ERROR (entity self @ '' create error. Details:\<newline>'') w1)
      | (Resolved md, self1, w1) \<Rightarrow>
          (case create_query m self1 save of
             Inl err \<Rightarrow>
               (Rejected err, self1,
                LOGGER ERROR (entity self @ '' create error. Details:\<newline>'') w1)
           | Inr (sql, parms) \<Rightarrow>
               (case callDb self1 sql parms
                       (LOGGER DEBUG ''  create parameters: ''
                          (LOGGER DEBUG (''  create sql: '' @ sql) w1)) of
                  (Inl err, w2) \<Rightarrow>
                    (Rejected (DbErr err), self1,
                     LOGGER ERROR (entity self @ '' create error. Details:\<newline>'') w2)
                | (Inr res, w2) \<Rightarrow>
                    (Resolved (set_generated_key self1 res save), self1,
                     LOGGER DEBUG (entity self @ '' create results:'')
                       (LOGGER TRACE ''  create raw results: '' w2)))))"

definition update ::
  "moment_lib \<Rightarrow> obj \<Rightarrow> query_opts option \<Rightarrow> DbEntity \<Rightarrow> world
     \<Rightarrow> obj outcome \<times> DbEntity \<times> world" where
  "update m save opts self w =
     (case fetchMetadata self (LOGGER DEBUG (entity self @ '' update...'') w) of
        (Rejected err, self1, w1) \<Rightarrow>
          (Rejected err, self1,
           LOGGER ERROR (entity self @ '' update error. Details: \<newline>'') w1)
      | (Resolved md, self1, w1) \<Rightarrow>
          (case update_query m self1 save of
             Inl err \<Rightarrow>
               (Rejected err, self1,
                LOGGER ERROR (entity self @ '' update error. Details: \<newline>'') w1)
           | Inr (sql, parms) \<Rightarrow>
               (case callDb self1 sql parms
                       (LOGGER DEBUG ''  update parameters: ''
                          (LOGGER DEBUG (''  update sql: '' @ sql) w1)) of
                  (Inl err, w2) \<Rightarrow>
                    (Rejected (DbErr err), self1,
                     LOGGER ERROR (entity self @ '' update error. Details: \<newline>'') w2)
                | (Inr res, w2) \<Rightarrow>
                    (Resolved (oset save ''_affectedRows'' (packet_value (affectedRows res))), self1,
                     LOGGER DEBUG (entity self @ '' update results:'') w2))))"

definition deleteOne :: "obj \<Rightarrow> DbEntity \<Rightarrow> world \<Rightarrow> obj outcome \<times> DbEntity \<times> world" where
  "deleteOne toDelete self w =
     (case fetchMetadata self (LOGGER DEBUG (entity self @ '' delete...'') w) of
        (Rejected err, self1, w1) \<Rightarrow>
          (Rejected err, self1,
           LOGGER ERROR (entity self @ '' deleteOne error. Details:\<newline>'') w1)
      | (Resolved md, self1, w1) \<Rightarrow>
          (case deleteOne_query self1 toDelete of
             (sql, parms) \<Rightarrow>
               (case callDb self1 sql parms
                       (LOGGER DEBUG ''  deleteOne parameters: ''
                          (LOGGER DEBUG (''  deleteOne sql: '' @ sql) w1)) of
                  (Inl err, w2) \<Rightarrow>
                    (Rejected (DbErr err), self1,
                     LOGGER ERROR (entity self @ '' deleteOne error. Details:\<newline>'') w2)
                | (Inr res, w2) \<Rightarrow>
                    (Resolved (oset toDelete ''_affectedRows'' (packet_value (affectedRows res))),
                     self1, LOGGER DEBUG (entity self @ '' deleteOne results:'') w2))))"

definition delete :: "jsval \<Rightarrow> DbEntity \<Rightarrow> world \<Rightarrow> obj outcome \<times> DbEntity \<times> world" where
  "delete idv self w =
     (case fetchMetadata self (LOGGER DEBUG (entity self @ '' delete...'') w) of
        (Rejected err, self1, w1) \<Rightarrow>
          (Rejected err, self1, LOGGER ERROR (entity self @ '' delete error. Details:\<newline>'') w1)
      | (Resolved md, self1, w1) \<Rightarrow>
          (case delete_query self1 idv of
             (sql, parms) \<Rightarrow>
               (case callDb self1 sql parms
                       (LOGGER DEBUG ''  delete parameters: ''
                          (LOGGER DEBUG (''  delete sql: '' @ sql) w1)) of
                  (Inl err, w2) \<Rightarrow>
                    (Rejected (DbErr err), self1,
                     LOGGER ERROR (entity self @ '' delete error. Details:\<newline>'') w2)
                | (Inr res, w2) \<Rightarrow>
                    (Resolved [(''_affectedRows'', packet_value (affectedRows res))], self1,
                     LOGGER DEBUG (entity self @ '' delete results:'') w2))))"

text \<open>The \<^verbatim>\<open>catch\<close> handlers of \<^verbatim>\<open>deleteMatching\<close> and \<^verbatim>\<open>deleteWhere\<close> reject
  with \<^verbatim>\<open>err.code\<close>.\<close>

definition deleteMatching :: "obj \<Rightarrow> DbEntity \<Rightarrow> world \<Rightarrow> obj outcome \<times> DbEntity \<times> world" where
  "deleteMatching criteria self w =
     (case fetchMetadata self (LOGGER DEBUG (entity self @ '' delete...'') w) of
        (Rejected err, self1, w1) \<Rightarrow>
          (Rejected (Reason (err_code err)), self1,
           LOGGER ERROR (entity self @ '' deleteMatching error. Details:\<newline>'') w1)
      | (Resolved md, self1, w1) \<Rightarrow>
          (case deleteMatching_query self1 criteria of
             Inl err \<Rightarrow>
               (Rejected (Reason (err_code err)), self1,
                LOGGER ERROR (entity self @ '' deleteMatching error. Details:\<newline>'') w1)
           | Inr (sql, parms) \<Rightarrow>
               (case callDb self1 sql parms
                       (LOGGER DEBUG ''  deleteMatching parameters: ''
                          (LOGGER DEBUG (''  deleteMatching sql: '' @ sql) w1)) of
                  (Inl err, w2) \<Rightarrow>
                    (Rejected (Reason (err_code (DbErr err))), self1,
                     LOGGER ERROR (entity self @ '' deleteMatching error. Details:\<newline>'') w2)
                | (Inr res, w2) \<Rightarrow>
                    (Resolved (oset criteria ''_affectedRows'' (packet_value (affectedRows res))),
                     self1, LOGGER DEBUG (entity self @ '' deleteMatching results:'') w2))))"

definition deleteWhere ::
  "string \<Rightarrow> jsval list \<Rightarrow> DbEntity \<Rightarrow> world \<Rightarrow> obj outcome \<times> DbEntity \<times> world" where
  "deleteWhere wh parms self w =
     (case fetchMetadata self (LOGGER DEBUG (entity self @ '' deleteWhere...'') w) of
        (Rejected err, self1, w1) \<Rightarrow>
          (Rejected (Reason (err_code err)), self1,
           LOGGER ERROR (entity self @ '' deleteWhere error. Details:\<newline>'') w1)
      | (Resolved md, self1, w1) \<Rightarrow>
          (case deleteWhere_query self1 wh parms of
             (sql, parms1) \<Rightarrow>
               (case callDb self1 sql parms1
                       (LOGGER DEBUG ''  deleteWhere parameters: ''
                          (LOGGER DEBUG (''  deleteWhere sql: '' @ sql) w1)) of
                  (Inl err, w2) \<Rightarrow>
                    (Rejected (Reason (err_code (DbErr err))), self1,
                     LOGGER ERROR (entity self @ '' deleteWhere error. Details:\<newline>'') w2)
                | (Inr res, w2) \<Rightarrow>
                    (Resolved [(''_affectedRows'', packet_value (affectedRows res))], self1,
                     LOGGER DEBUG (entity self @ '' deleteWhere results:'') w2))))"

section \<open>The shape shared by the operations\<close>

text \<open>
  Every operation has the same promise chain: a debug line, the metadata, the statement
  (building it may throw), the debug lines about it, \<^verbatim>\<open>callDb\<close>, the shaping of the
  result with its log lines, and one \<^verbatim>\<open>catch\<close> handler that logs at error severity
  and rejects with the error or with something made from it. \<open>chain\<close> is that shape
  with the parts as arguments; each operation above is shown to be an instance of it.
\<close>

definition log_lines :: "(level \<times> string) list \<Rightarrow> world \<Rightarrow> world" where
  "log_lines ls w = w\<lparr>logged := logged w @ ls\<rparr>"

definition chain ::
  "string \<Rightarrow> string \<Rightarrow> (jserr \<Rightarrow> jserr) \<Rightarrow> (DbEntity \<Rightarrow> jserr + (string \<times> jsval list))
     \<Rightarrow> (string \<Rightarrow> (level \<times> string) list) \<Rightarrow> (DbEntity \<Rightarrow> results \<Rightarrow> 'a)
     \<Rightarrow> (level \<times> string) list \<Rightarrow> DbEntity \<Rightarrow> world \<Rightarrow> 'a outcome \<times> DbEntity \<times> world" where
  "chain start errmsg rej build pre shape post self w =
     (case fetchMetadata self (LOGGER DEBUG start w) of
        (Rejected err, self1, w1) \<Rightarrow> (Rejected (rej err), self1, LOGGER ERROR errmsg w1)
      | (Resolved md, self1, w1) \<Rightarrow>
          (case build self1 of
             Inl err \<Rightarrow> (Rejected (rej err), self1, LOGGER ERROR errmsg w1)
           | Inr (sql, parms) \<Rightarrow>
               (case callDb self1 sql parms (log_lines (pre sql) w1) of
                  (Inl err, w2) \<Rightarrow>
                    (Rejected (rej (DbErr err)), self1, LOGGER ERROR errmsg w2)
                | (Inr res, w2) \<Rightarrow>
                    (Resolved (shape self1 res), self1, log_lines post w2))))"

section \<open>Sequences of operations on one handle\<close>

datatype operation =
    Get jsval
  | All "query_opts option"
  | Find obj "query_opts option"
  | One obj "query_opts option"
  | SelectWhere string "jsval list" "query_opts option"
  | Create obj "query_opts option"
  | Update obj "query_opts option"
  | DeleteOne obj
  | Delete jsval
  | DeleteMatching obj
  | DeleteWhere string "jsval list"

datatype jsres = VObj obj | VRows results

definition settle_with ::
  "('a \<Rightarrow> jsres) \<Rightarrow> 'a outcome \<times> DbEntity \<times> world \<Rightarrow> jsres outcome \<times> DbEntity \<times> world" where
  "settle_with f r =
     (case r of
        (Resolved x, self1, w1) \<Rightarrow> (Resolved (f x), self1, w1)
      | (Rejected err, self1, w1) \<Rightarrow> (Rejected err, self1, w1))"

fun run :: "moment_lib \<Rightarrow> operation \<Rightarrow> DbEntity \<Rightarrow> world \<Rightarrow> jsres outcome \<times> DbEntity \<times> world" where
  "run m (Get idv) self w = settle_with VObj (get idv self w)"
| "run m (All opts) self w = settle_with VRows (all opts self w)"
| "run m (Find query opts) self w = settle_with VRows (find_rows query opts self w)"
| "run m (One query opts) self w = settle_with VObj (one_row query opts self w)"
| "run m (SelectWhere wh parms opts) self w = settle_with VRows (selectWhere wh parms opts self w)"
| "run m (Create save opts) self w = settle_with VObj (create m save opts self w)"
| "run m (Update save opts) self w = settle_with VObj (update m save opts self w)"
| "run m (DeleteOne toDelete) self w = settle_with VObj (deleteOne toDelete self w)"
| "run m (Delete idv) self w = settle_with VObj (delete idv self w)"
| "run m (DeleteMatching criteria) self w = settle_with VObj (deleteMatching criteria self w)"
| "run m (DeleteWhere wh parms) self w = settle_with VObj (deleteWhere wh parms self w)"

text \<open>Operations used one after the other: each starts when the one before has settled.\<close>

fun run_all ::
  "moment_lib \<Rightarrow> operation list \<Rightarrow> DbEntity \<Rightarrow> world \<Rightarrow> jsres outcome list \<times> DbEntity \<times> world" where
  "run_all m [] self w = ([], self, w)"
| "run_all m (opn # rest) self w =
     (case run m opn self w of
        (r, self1, w1) \<Rightarrow>
          (case run_all m rest self1 w1 of (rs, self2, w2) \<Rightarrow> (r # rs, self2, w2)))"

text \<open>The introspection calls among some exchanges.\<close>

definition introspections :: "DbEntity \<Rightarrow> exchange list \<Rightarrow> exchange list" where
  "introspections self xs = filter (\<lambda>x. fst x = show_columns_sql self) xs"

section \<open>Callers that overlap on the first load\<close>

text \<open>
  The runtime runs one callback at a time, to its end. A call of \<^verbatim>\<open>fetchMetadata\<close>
  runs up to \<^verbatim>\<open>pool.query\<close> at once (event \<open>Invoke\<close>); its callback runs when the
  answer is delivered (event \<open>Deliver\<close>), and other callers may run in between. The state
  shared by the callers is the handle, the world, the answers under way (oldest first) and
  how the promises of \<^verbatim>\<open>fetchMetadata\<close> have settled so far.
\<close>

record shared =
  handle :: DbEntity
  outside :: world
  in_flight :: "response list"
  settled :: "column_md list outcome list"

datatype event = Invoke | Deliver

fun step :: "event \<Rightarrow> shared \<Rightarrow> shared" where
  "step Invoke s =
     (case metadata (handle s) of
        None \<Rightarrow>
          (case callDb (handle s) (show_columns_sql (handle s)) [] (outside s) of
             (r, w1) \<Rightarrow> s\<lparr>outside := w1, in_flight := in_flight s @ [r]\<rparr>)
      | Some md \<Rightarrow>
          s\<lparr>outside := LOGGER TRACE ''(Metadata already loaded)'' (outside s),
            settled := settled s @ [Resolved md]\<rparr>)"
| "step Deliver s =
     (case in_flight s of
        [] \<Rightarrow> s
      | r # rest \<Rightarrow>
          (case (case r of
                   Inl err \<Rightarrow> fetchMetadata_catch (DbErr err) (handle s) (outside s)
                 | Inr res \<Rightarrow> fetchMetadata_then res (handle s) (outside s)) of
             (out, self1, w1) \<Rightarrow>
               s\<lparr>handle := self1, outside := w1, in_flight := rest,
                 settled := settled s @ [out]\<rparr>))"

fun steps :: "event list \<Rightarrow> shared \<Rightarrow> shared" where
  "steps [] s = s"
| "steps (e # es) s = steps es (step e s)"

section \<open>Example tables\<close>

text \<open>What \<^verbatim>\<open>SHOW COLUMNS\<close> reports for a table with the key \<^verbatim>\<open>id\<close>, the special
  columns \<^verbatim>\<open>version\<close> and \<^verbatim>\<open>updated\<close> and the column \<^verbatim>\<open>name\<close>; for a table
  with the composite key \<^verbatim>\<open>(a, b)\<close>; and for a table without a key.\<close>

definition reported_column :: "string \<Rightarrow> string \<Rightarrow> string \<Rightarrow> string \<Rightarrow> string \<Rightarrow> obj" where
  "reported_column fld ty nl ky ex =
     [(''Field'', JStr fld), (''Type'', JStr ty), (''Null'', JStr nl), (''Key'', JStr ky),
      (''Default'', JNull), (''Extra'', JStr ex)]"

definition customer_columns :: "obj list" where
  "customer_columns =
     [reported_column ''id'' ''int(11)'' ''NO'' ''PRI'' ''auto_increment'',
      reported_column ''version'' ''int(11)'' ''NO'' [] [],
      reported_column ''updated'' ''timestamp'' ''NO'' [] [],
      reported_column ''name'' ''varchar(255)'' ''YES'' [] []]"

definition link_columns :: "obj list" where
  "link_columns =
     [reported_column ''a'' ''int(11)'' ''NO'' ''PRI'' [],
      reported_column ''b'' ''int(11)'' ''NO'' ''PRI'' [],
      reported_column ''note'' ''varchar(255)'' ''YES'' [] []]"

definition log_columns :: "obj list" where
  "log_columns = [reported_column ''line'' ''text'' ''YES'' [] []]"

text \<open>A handle on which the first load has reported the given columns.\<close>

definition loaded :: "DbEntity \<Rightarrow> obj list \<Rightarrow> DbEntity" where
  "loaded self cols = self\<lparr>metadata := Some (map (column_of_item (options self)) cols)\<rparr>"

text \<open>A pool that reports the given columns and answers every other statement with the
  given answer.\<close>

definition scripted_pool ::
  "obj list \<Rightarrow> response \<Rightarrow> exchange list \<Rightarrow> string \<Rightarrow> jsval list \<Rightarrow> response" where
  "scripted_pool cols answer xs sql parms =
     (if take 4 sql = ''SHOW'' then Inr \<lparr>rows = cols, affectedRows = None, insertId = None\<rparr>
      else answer)"

definition one_row_written :: response where
  "one_row_written = Inr \<lparr>rows = [], affectedRows = Some 1, insertId = Some 0\<rparr>"

text \<open>Two error objects of the engine: a statement it cannot parse, and a row that other
  rows refer to.\<close>

definition parse_error :: obj where
  "parse_error = [(''code'', JStr ''ER_PARSE_ERROR''), (''errno'', JNum 1064)]"

definition row_is_referenced :: obj where
  "row_is_referenced = [(''code'', JStr ''ER_ROW_IS_REFERENCED_2''), (''errno'', JNum 1451)]"

text \<open>A pool that fails every statement.\<close>

definition unreachable_pool :: "exchange list \<Rightarrow> string \<Rightarrow> jsval list \<Rightarrow> response" where
  "unreachable_pool xs sql parms = Inl [(''code'', JStr ''ECONNREFUSED'')]"

definition nothing_yet :: world where
  "nothing_yet = \<lparr>exchanges = [], logged = []\<rparr>"

text \<open>The handle of the example table before its first use, on a pool that reports the
  columns of the table and gives the given answer to every other statement; and that
  handle with nothing under way.\<close>

definition customers :: "response \<Rightarrow> DbEntity" where
  "customers answer =
     new_DbEntity ''t_customer'' ''customer'' None (scripted_pool customer_columns answer)"

definition first_use :: shared where
  "first_use =
     \<lparr>handle = customers one_row_written, outside = nothing_yet, in_flight = [], settled = []\<rparr>"

section \<open>Facts about the building blocks\<close>

lemmas example_defs =
  loaded_def customers_def new_DbEntity_def default_options_def customer_columns_def link_columns_def
  log_columns_def reported_column_def column_of_item_def oget_def metadata_list_def

lemma startsWith_iff: "startsWith v t \<longleftrightarrow> (\<exists>r. lodash_toString v = t @ r)"
proof
  assume "startsWith v t"
  then have "lodash_toString v = t @ drop (length t) (lodash_toString v)"
    unfolding startsWith_def by (metis append_take_drop_id)
  then show "\<exists>r. lodash_toString v = t @ r" ..
next
  assume "\<exists>r. lodash_toString v = t @ r"
  then show "startsWith v t"
    unfolding startsWith_def by auto
qed

section \<open>Value coercion: claims C6 and C7\<close>

text \<open>
  Claim C6. For a column whose type is \<^verbatim>\<open>datetime\<close> or \<^verbatim>\<open>timestamp\<close>, or starts
  with \<^verbatim>\<open>int\<close>, \<^verbatim>\<open>num\<close> or \<^verbatim>\<open>dec\<close>, the empty string becomes \<^verbatim>\<open>null\<close> when the
  column is nullable and is refused otherwise, with the column's name followed by
  \<^verbatim>\<open> is not permitted to be empty.\<close> as the message of the error; for every other type
  the empty string is returned as it is.
\<close>

theorem transformToSafeValue_empty_string:
  assumes "sql_type col = JStr t"
  shows "transformToSafeValue m (JStr []) col =
     (if t = ''datetime'' \<or> t = ''timestamp''
         \<or> (\<exists>r. t = ''int'' @ r) \<or> (\<exists>r. t = ''num'' @ r) \<or> (\<exists>r. t = ''dec'' @ r)
      then (if nullable col then Inr JNull
            else Inl (Error (to_string (column col) @ '' is not permitted to be empty.'')))
      else Inr (JStr []))"
  using assms by (simp add: transformToSafeValue_def startsWith_iff lodash_toString_def)

theorem transformToSafeValue_empty_string_witness:
  "transformToSafeValue (\<lambda>v. None) (JStr [])
     \<lparr>column = JStr ''age'', sql_type = JStr ''int(11)'', pk = False, nullable = False,
      default_value = JNull, autoincrement = False, is_updated_timestamp = False,
      is_created_timestamp = False, is_updated_version = False\<rparr>
   = Inl (Error ''age is not permitted to be empty.'')
   \<and> transformToSafeValue (\<lambda>v. None) (JStr [])
     \<lparr>column = JStr ''age'', sql_type = JStr ''int(11)'', pk = False, nullable = True,
      default_value = JNull, autoincrement = False, is_updated_timestamp = False,
      is_created_timestamp = False, is_updated_version = False\<rparr>
   = Inr JNull
   \<and> transformToSafeValue (\<lambda>v. None) (JStr [])
     \<lparr>column = JStr ''name'', sql_type = JStr ''varchar(255)'', pk = False, nullable = False,
      default_value = JNull, autoincrement = False, is_updated_timestamp = False,
      is_created_timestamp = False, is_updated_version = False\<rparr>
   = Inr (JStr [])"
  using
    transformToSafeValue_empty_string [of
      "\<lparr>column = JStr ''age'', sql_type = JStr ''int(11)'', pk = False, nullable = False,
        default_value = JNull, autoincrement = False, is_updated_timestamp = False,
        is_created_timestamp = False, is_updated_version = False\<rparr>" "''int(11)''" "\<lambda>v. None"]
    transformToSafeValue_empty_string [of
      "\<lparr>column = JStr ''age'', sql_type = JStr ''int(11)'', pk = False, nullable = True,
        default_value = JNull, autoincrement = False, is_updated_timestamp = False,
        is_created_timestamp = False, is_updated_version = False\<rparr>" "''int(11)''" "\<lambda>v. None"]
    transformToSafeValue_empty_string [of
      "\<lparr>column = JStr ''name'', sql_type = JStr ''varchar(255)'', pk = False, nullable = False,
        default_value = JNull, autoincrement = False, is_updated_timestamp = False,
        is_created_timestamp = False, is_updated_version = False\<rparr>" "''varchar(255)''"
      "\<lambda>v. None"]
  by simp

text \<open>
  Claim C7 says that a present value that cannot be read as a date makes the coercion fail
  on a \<^verbatim>\<open>datetime\<close> or \<^verbatim>\<open>timestamp\<close> column. The code formats whatever the library
  made of the value and never looks whether it is valid: the text \<^verbatim>\<open>Invalid date\<close> is
  returned as the safe value.
\<close>

theorem transformToSafeValue_unparsable_not_refused:
  "transformToSafeValue (\<lambda>v. None) (JStr ''next tuesday-ish'')
     \<lparr>column = JStr ''due'', sql_type = JStr ''datetime'', pk = False, nullable = False,
      default_value = JNull, autoincrement = False, is_updated_timestamp = False,
      is_created_timestamp = False, is_updated_version = False\<rparr>
   = Inr (JStr ''Invalid date'')"
  by (simp add: transformToSafeValue_def moment_format_def)

text \<open>
  Claim C7, amended. For a value that is neither \<^verbatim>\<open>null\<close> nor \<^verbatim>\<open>undefined\<close> nor
  the empty string, the coercion never fails: on a column whose type is exactly
  \<^verbatim>\<open>datetime\<close> or \<^verbatim>\<open>timestamp\<close> it returns the library's rendering of the value
  with the pattern \<^verbatim>\<open>YYYY-MM-DD HH:mm:ss\<close> when the library can read the value, and the
  text \<^verbatim>\<open>Invalid date\<close> when it cannot; on every other column it returns the value
  unchanged.
\<close>

theorem transformToSafeValue_present:
  assumes "\<not> isNil v" and "v \<noteq> JStr []"
  shows "transformToSafeValue m v col =
     Inr (if sql_type col = JStr ''datetime'' \<or> sql_type col = JStr ''timestamp''
          then JStr (case m v of None \<Rightarrow> ''Invalid date'' | Some s \<Rightarrow> s)
          else v)"
  using assms by (simp add: transformToSafeValue_def moment_format_def)

theorem transformToSafeValue_present_witness:
  "\<not> isNil (JStr ''2024-01-02T10:00:00Z'') \<and> JStr ''2024-01-02T10:00:00Z'' \<noteq> JStr []
   \<and> transformToSafeValue
        (\<lambda>v. if v = JStr ''2024-01-02T10:00:00Z'' then Some ''2024-01-02 10:00:00'' else None)
        (JStr ''2024-01-02T10:00:00Z'')
        \<lparr>column = JStr ''due'', sql_type = JStr ''datetime'', pk = False, nullable = False,
         default_value = JNull, autoincrement = False, is_updated_timestamp = False,
         is_created_timestamp = False, is_updated_version = False\<rparr>
      = Inr (JStr ''2024-01-02 10:00:00'')"
  using transformToSafeValue_present [of "JStr ''2024-01-02T10:00:00Z''"
      "\<lambda>v. if v = JStr ''2024-01-02T10:00:00Z'' then Some ''2024-01-02 10:00:00'' else None"
      "\<lparr>column = JStr ''due'', sql_type = JStr ''datetime'', pk = False, nullable = False,
        default_value = JNull, autoincrement = False, is_updated_timestamp = False,
        is_created_timestamp = False, is_updated_version = False\<rparr>"]
  by simp

section \<open>Statements: claims C1, C2 and C3\<close>

text \<open>
  Claim C1 says that \<^verbatim>\<open>update({id:5, name:"X"})\<close> on the table with \<^verbatim>\<open>id\<close>,
  \<^verbatim>\<open>version\<close>, \<^verbatim>\<open>updated\<close> and \<^verbatim>\<open>name\<close> sets \<^verbatim>\<open>version\<close> and
  \<^verbatim>\<open>updated\<close> as well. The loop runs over the entries of the save object, which has
  neither: the statement built is another one.
\<close>

theorem update_id_name_not_as_claimed:
  "update_query (\<lambda>v. None)
     (loaded (customers one_row_written) customer_columns)
     [(''id'', JNum 5), (''name'', JStr ''X'')]
   \<noteq> Inr (''UPDATE t_customer SET version=version+1, updated=CURRENT_TIMESTAMP, name=? WHERE id=?'',
          [JStr ''X'', JNum 5])"
  by (simp add: update_query_def example_defs transformToSafeValue_def startsWith_def
      lodash_toString_def)

text \<open>
  Claim C1, amended. On that table \<^verbatim>\<open>update({id:5, name:"X"})\<close> builds
  \<^verbatim>\<open>UPDATE <table> SET name=? WHERE id=?\<close> with the parameters \<^verbatim>\<open>["X", 5]\<close>. The
  clauses \<^verbatim>\<open>version=version+1\<close> and \<^verbatim>\<open>updated=CURRENT_TIMESTAMP\<close> are written
  only for keys that the save object has, and the set clauses follow the order of the save
  object: with the keys \<^verbatim>\<open>id, version, updated, name\<close> the statement is
  \<^verbatim>\<open>UPDATE <table> SET version=version+1, updated=CURRENT_TIMESTAMP, name=? WHERE id=?\<close>,
  with the keys \<^verbatim>\<open>name, id, updated, version\<close> it is
  \<^verbatim>\<open>UPDATE <table> SET name=?, updated=CURRENT_TIMESTAMP, version=version+1 WHERE id=?\<close>,
  each time with the parameters \<^verbatim>\<open>["X", 5]\<close>.
\<close>

theorem update_follows_save_object:
  "update_query m (loaded (new_DbEntity tbl ent None pl) customer_columns)
      [(''id'', JNum 5), (''name'', JStr ''X'')]
    = Inr (''UPDATE '' @ tbl @ '' SET name=? WHERE id=?'', [JStr ''X'', JNum 5])
   \<and> update_query m (loaded (new_DbEntity tbl ent None pl) customer_columns)
      [(''id'', JNum 5), (''version'', JNum 3), (''updated'', JNull), (''name'', JStr ''X'')]
    = Inr (''UPDATE '' @ tbl
             @ '' SET version=version+1, updated=CURRENT_TIMESTAMP, name=? WHERE id=?'',
           [JStr ''X'', JNum 5])
   \<and> update_query m (loaded (new_DbEntity tbl ent None pl) customer_columns)
      [(''name'', JStr ''X''), (''id'', JNum 5), (''updated'', JNull), (''version'', JNum 3)]
    = Inr (''UPDATE '' @ tbl
             @ '' SET name=?, updated=CURRENT_TIMESTAMP, version=version+1 WHERE id=?'',
           [JStr ''X'', JNum 5])"
  by (simp add: update_query_def example_defs transformToSafeValue_def startsWith_def
      lodash_toString_def)

text \<open>
  Claim C2: without an order from the caller the clause is
  \<^verbatim>\<open>ORDER BY pk1 ASC, pk2 ASC, ...\<close>, and there is none for a table without a key. The
  loop over the key columns appends the separator to \<^verbatim>\<open>orderBy\<close> and the column to
  \<^verbatim>\<open>sql\<close>, and \<^verbatim>\<open> ORDER BY \<close> is appended before the loop whatever the number of
  key columns. With the key \<^verbatim>\<open>(a, b)\<close> the columns come unseparated and the comma
  after them; without a key the clause is empty.
\<close>

theorem appendOrderByAndLimit_composite_key:
  "appendOrderByAndLimit (loaded (new_DbEntity tbl ent None pl) link_columns) sql
      (Some \<lparr>orderBy = None, limit = JNum 10, offset = JUndefined, booleanMode = JUndefined\<rparr>)
     = sql @ '' ORDER BY a ASCb ASC,  LIMIT 10''
   \<and> appendOrderByAndLimit (loaded (new_DbEntity tbl ent None pl) log_columns) sql
      (Some \<lparr>orderBy = None, limit = JNum 10, offset = JUndefined, booleanMode = JUndefined\<rparr>)
     = sql @ '' ORDER BY  LIMIT 10''
   \<and> appendOrderByAndLimit (loaded (new_DbEntity tbl ent None pl) customer_columns) sql
      (Some \<lparr>orderBy = None, limit = JNum 10, offset = JUndefined, booleanMode = JUndefined\<rparr>)
     = sql @ '' ORDER BY id ASC LIMIT 10''"
  by (simp add: appendOrderByAndLimit_def example_defs show_int_def digits.simps)

text \<open>
  Claim C3: every select ends with a \<^verbatim>\<open>LIMIT\<close> clause, \<^verbatim>\<open>LIMIT 1000\<close> when the
  caller gives none, also when there is no options object. The default is set inside the
  test that the options object is present: without one, the three selects end after the
  order.
\<close>

theorem select_without_options_has_no_limit:
  "all_query (loaded (new_DbEntity tbl ent None pl) customer_columns) None
     = (''SELECT * FROM '' @ tbl @ ''  ORDER BY id ASC'', [])
   \<and> find_query (loaded (new_DbEntity tbl ent None pl) customer_columns)
        [(''name'', JStr ''X'')] None
     = (''SELECT * FROM '' @ tbl @ ''  WHERE name=? ORDER BY id ASC'', [JStr ''X''])
   \<and> selectWhere_query (loaded (new_DbEntity tbl ent None pl) customer_columns)
        ''name like ?'' [JStr ''X%''] None
     = (''SELECT * FROM '' @ tbl @ ''  WHERE name like ? ORDER BY id ASC'', [])
   \<and> all_query (loaded (new_DbEntity tbl ent None pl) customer_columns)
        (Some \<lparr>orderBy = None, limit = JUndefined, offset = JUndefined, booleanMode = JUndefined\<rparr>)
     = (''SELECT * FROM '' @ tbl @ ''  ORDER BY id ASC LIMIT 1000'', [])"
  by (simp add: all_query_def find_query_def selectWhere_query_def appendOrderByAndLimit_def
      example_defs)

section \<open>Facts about the world, the load and the trailing clauses\<close>

lemma exchanges_LOGGER [simp]: "exchanges (LOGGER lv msg w) = exchanges w"
  by (simp add: LOGGER_def)

lemma logged_LOGGER [simp]: "logged (LOGGER lv msg w) = logged w @ [(lv, msg)]"
  by (simp add: LOGGER_def)

lemma exchanges_log_lines [simp]: "exchanges (log_lines ls w) = exchanges w"
  by (simp add: log_lines_def)

lemma logged_log_lines [simp]: "logged (log_lines ls w) = logged w @ ls"
  by (simp add: log_lines_def)

lemma LOGGER_as_log_lines: "LOGGER lv msg w = log_lines [(lv, msg)] w"
  by (simp add: LOGGER_def log_lines_def)

lemma log_lines_log_lines [simp]: "log_lines ls (log_lines ks w) = log_lines (ks @ ls) w"
  by (simp add: log_lines_def)

lemma callDb_eq:
  "callDb self sql parms w =
     (pool self (exchanges w) sql parms,
      w\<lparr>exchanges := exchanges w @ [(sql, parms, pool self (exchanges w) sql parms)]\<rparr>)"
  by (simp add: callDb_def Let_def)

lemma fetchMetadata_eq:
  "fetchMetadata self w =
     (case metadata self of
        None \<Rightarrow>
          (case pool self (exchanges w) (show_columns_sql self) [] of
             Inl err \<Rightarrow>
               (Rejected (DbErr err), self,
                log_lines [(ERROR, entity self @ '' fetchMetadata error. Details: '')]
                  (w\<lparr>exchanges := exchanges w @ [(show_columns_sql self, [], Inl err)]\<rparr>))
           | Inr res \<Rightarrow>
               (Resolved (map (column_of_item (options self)) (rows res)),
                self\<lparr>metadata := Some (map (column_of_item (options self)) (rows res))\<rparr>,
                log_lines [(TRACE, entity self @ '' fetchMetadata raw results:''),
                           (TRACE, ''Finalized Metadata: '')]
                  (w\<lparr>exchanges := exchanges w @ [(show_columns_sql self, [], Inr res)]\<rparr>)))
      | Some md \<Rightarrow> (Resolved md, self, log_lines [(TRACE, ''(Metadata already loaded)'')] w))"
  by (simp add: fetchMetadata_def fetchMetadata_then_def fetchMetadata_catch_def callDb_eq
      LOGGER_as_log_lines Let_def split: option.splits sum.splits)

lemma introspections_Nil [simp]: "introspections self [] = []"
  by (simp add: introspections_def)

lemma introspections_Cons [simp]:
  "introspections self (x # xs) =
     (if fst x = show_columns_sql self then x # introspections self xs
      else introspections self xs)"
  by (simp add: introspections_def)

lemma introspections_append [simp]:
  "introspections self (xs @ ys) = introspections self xs @ introspections self ys"
  by (simp add: introspections_def)

lemma show_columns_sql_metadata [simp]:
  "show_columns_sql (self\<lparr>metadata := x\<rparr>) = show_columns_sql self"
  by (simp add: show_columns_sql_def)

text \<open>The loop over the key columns in closed form: the columns end up side by side in
  \<^verbatim>\<open>sql\<close>, the separators end up together in \<^verbatim>\<open>orderBy\<close>.\<close>

lemma pks_loop_closed:
  "pks_loop cs i (sql, ob) =
     (sql @ concat (map (\<lambda>c. to_string (column c) @ '' ASC'') cs),
      ob @ concat (replicate (length cs - (if i = 0 then 1 else 0)) '', ''))"
  by (induction cs arbitrary: i sql ob) auto

lemma appendOrderByAndLimit_Cons:
  "appendOrderByAndLimit self (a # sql) opts = a # appendOrderByAndLimit self sql opts"
  by (simp add: appendOrderByAndLimit_def pks_loop_closed Let_def split: option.splits)

lemma appendOrderByAndLimit_prefix:
  "appendOrderByAndLimit self (pre @ sql) opts = pre @ appendOrderByAndLimit self sql opts"
  by (induction pre) (simp_all add: appendOrderByAndLimit_Cons)

lemma appendOrderByAndLimit_split:
  "appendOrderByAndLimit self sql opts = sql @ appendOrderByAndLimit self [] opts"
  using appendOrderByAndLimit_prefix [of self sql "[]" opts] by simp

text \<open>What the trailing clauses are for any number of key columns when there is no options
  object, and that an options object always brings a \<^verbatim>\<open>LIMIT\<close> clause.\<close>

lemma appendOrderByAndLimit_default_order:
  "appendOrderByAndLimit self sql None =
     sql @ '' ORDER BY ''
       @ concat (map (\<lambda>c. to_string (column c) @ '' ASC'') (filter pk (metadata_list self)))
       @ concat (replicate (length (filter pk (metadata_list self)) - 1) '', '')"
  by (simp add: appendOrderByAndLimit_def pks_loop_closed)

lemma appendOrderByAndLimit_limit:
  "\<exists>ord. appendOrderByAndLimit self sql (Some ob) =
     sql @ ord
       @ (if isNil (limit ob) then '' LIMIT 1000'' else '' LIMIT '' @ to_string (limit ob))
       @ (if isNil (offset ob) then [] else '' OFFSET '' @ to_string (offset ob))"
proof (cases "(case orderBy ob of None \<Rightarrow> [] | Some toks \<Rightarrow>
                 if length toks > 0 then orderBy_loop toks 0 '' ORDER BY '' else []) = []")
  case True
  then show ?thesis
    by (simp add: appendOrderByAndLimit_def pks_loop_closed Let_def)
next
  case False
  then show ?thesis
    by (simp add: appendOrderByAndLimit_def Let_def)
qed

text \<open>With exactly one key column and no order from the caller the clause is the
  intended one.\<close>

lemma appendOrderByAndLimit_single_key:
  assumes "filter pk (metadata_list self) = [c]"
  shows "appendOrderByAndLimit self sql None = sql @ '' ORDER BY '' @ to_string (column c) @ '' ASC''"
  using assms by (simp add: appendOrderByAndLimit_def)

lemma selectWhere_query_eq:
  "selectWhere_query self wh parms opts =
     (''SELECT * FROM '' @ table self @ ''  WHERE '' @ wh @ appendOrderByAndLimit self [] opts, [])"
  unfolding selectWhere_query_def Let_def
  by (subst appendOrderByAndLimit_split) simp

lemma find_query_empty:
  "find_query self [] opts =
     (''SELECT * FROM '' @ table self @ ''  WHERE '' @ appendOrderByAndLimit self [] opts, [])"
  unfolding find_query_def Let_def
  by (subst appendOrderByAndLimit_split) simp

text \<open>A save object that adds no set clause adds no parameter either.\<close>

lemma update_loop_no_sets:
  "update_loop m self nps save (sets, parms) = Inr ([], ps) \<Longrightarrow> sets = [] \<and> ps = parms"
proof (induction save arbitrary: sets parms)
  case Nil
  then show ?case by simp
next
  case (Cons kv save)
  obtain k v where kv: "kv = (k, v)" by (cases kv)
  from Cons.prems obtain sets' parms' where
    step: "update_loop m self nps save (sets', parms') = Inr ([], ps)"
    and rel: "(sets' = sets \<and> parms' = parms) \<or> sets' \<noteq> []"
    unfolding kv
    by (auto split: option.splits sum.splits if_splits simp: Let_def)
  from Cons.IH [OF step] have "sets' = []" "ps = parms'" by simp_all
  with rel show ?case by simp
qed

text \<open>No statement of an operation is the introspection statement.\<close>

lemma get_query_not_show: "get_query s idv = (sql, ps) \<Longrightarrow> sql \<noteq> show_columns_sql s"
  by (auto simp: get_query_def show_columns_sql_def)

lemma all_query_not_show: "all_query s opts = (sql, ps) \<Longrightarrow> sql \<noteq> show_columns_sql s"
  by (auto simp: all_query_def show_columns_sql_def appendOrderByAndLimit_Cons)

lemma find_query_not_show: "find_query s query opts = (sql, ps) \<Longrightarrow> sql \<noteq> show_columns_sql s"
  by (auto simp: find_query_def show_columns_sql_def appendOrderByAndLimit_Cons Let_def
      split: prod.splits)

lemma selectWhere_query_not_show:
  "selectWhere_query s wh parms opts = (sql, ps) \<Longrightarrow> sql \<noteq> show_columns_sql s"
  by (auto simp: selectWhere_query_def show_columns_sql_def appendOrderByAndLimit_Cons Let_def)

lemma create_query_not_show:
  "create_query m s save = Inr (sql, ps) \<Longrightarrow> sql \<noteq> show_columns_sql s"
  by (auto simp: create_query_def show_columns_sql_def Let_def split: sum.splits prod.splits)

lemma update_query_not_show:
  "update_query m s save = Inr (sql, ps) \<Longrightarrow> sql \<noteq> show_columns_sql s"
  by (auto simp: update_query_def show_columns_sql_def Let_def split: sum.splits prod.splits)

lemma deleteOne_query_not_show:
  "deleteOne_query s toDelete = (sql, ps) \<Longrightarrow> sql \<noteq> show_columns_sql s"
  by (auto simp: deleteOne_query_def show_columns_sql_def split: prod.splits)

lemma delete_query_not_show: "delete_query s idv = (sql, ps) \<Longrightarrow> sql \<noteq> show_columns_sql s"
  by (auto simp: delete_query_def show_columns_sql_def)

lemma deleteWhere_query_not_show:
  "deleteWhere_query s wh parms = (sql, ps) \<Longrightarrow> sql \<noteq> show_columns_sql s"
  by (auto simp: deleteWhere_query_def show_columns_sql_def)

lemmas not_show =
  get_query_not_show all_query_not_show find_query_not_show selectWhere_query_not_show
  create_query_not_show update_query_not_show deleteOne_query_not_show delete_query_not_show
  deleteWhere_query_not_show

section \<open>Every operation is an instance of the shared shape\<close>

lemma get_chain:
  "get idv self w =
     chain (entity self @ '' get...'') (entity self @ '' get error. Details:\<newline>'') id
       (\<lambda>s. Inr (get_query s idv)) (\<lambda>sql. [(DEBUG, ''  query sql: '' @ sql)])
       (\<lambda>s res. first_or_empty res) [(TRACE, entity self @ '' get results:'')] self w"
  by (simp add: get_def chain_def LOGGER_as_log_lines split: prod.splits outcome.splits sum.splits)

lemma all_chain:
  "all opts self w =
     chain (entity self @ '' all...'') (entity self @ '' all error. Details:\<newline>'') id
       (\<lambda>s. Inr (all_query s opts)) (\<lambda>sql. [(DEBUG, ''  query sql: '' @ sql)])
       (\<lambda>s res. res) [(DEBUG, entity self @ '' all results:'')] self w"
  by (simp add: all_def chain_def LOGGER_as_log_lines split: prod.splits outcome.splits sum.splits)

lemma find_rows_chain:
  "find_rows query opts self w =
     chain (entity self @ '' find...'') (entity self @ '' find error. Details:\<newline>'') id
       (\<lambda>s. Inr (find_query s query opts))
       (\<lambda>sql. [(DEBUG, ''  query sql: '' @ sql), (DEBUG, ''  query parms: '')])
       (\<lambda>s res. res) [(DEBUG, entity self @ '' find results:'')] self w"
  by (simp add: find_rows_def chain_def LOGGER_as_log_lines
      split: prod.splits outcome.splits sum.splits)

lemma one_row_chain:
  "one_row query opts self w =
     chain (entity self @ '' find...'') (entity self @ '' find error. Details:\<newline>'') id
       (\<lambda>s. Inr (find_query s query opts))
       (\<lambda>sql. [(DEBUG, ''  query sql: '' @ sql), (DEBUG, ''  query parms: '')])
       (\<lambda>s res. first_or_empty res) [(DEBUG, entity self @ '' find results:'')] self w"
  by (simp add: one_row_def find_rows_chain chain_def split: prod.splits outcome.splits sum.splits)

lemma selectWhere_chain:
  "selectWhere wh parms opts self w =
     chain (entity self @ '' selectWhere...'')
       (entity self @ '' selectWhere error. Details:\<newline>'') id
       (\<lambda>s. Inr (selectWhere_query s wh parms opts))
       (\<lambda>sql. [(DEBUG, ''  query sql: '' @ sql), (DEBUG, ''  query parms: '')])
       (\<lambda>s res. res) [(DEBUG, entity self @ '' selectWhere results:'')] self w"
  by (simp add: selectWhere_def chain_def LOGGER_as_log_lines
      split: prod.splits outcome.splits sum.splits)

lemma create_chain:
  "create m save opts self w =
     chain (entity self @ '' create...'') (entity self @ '' create error. Details:\<newline>'') id
       (\<lambda>s. create_query m s save)
       (\<lambda>sql. [(DEBUG, ''  create sql: '' @ sql), (DEBUG, ''  create parameters: '')])
       (\<lambda>s res. set_generated_key s res save)
       [(TRACE, ''  create raw results: ''), (DEBUG, entity self @ '' create results:'')] self w"
  by (simp add: create_def chain_def LOGGER_as_log_lines split: prod.splits outcome.splits sum.splits)

lemma update_chain:
  "update m save opts self w =
     chain (entity self @ '' update...'') (entity self @ '' update error. Details: \<newline>'') id
       (\<lambda>s. update_query m s save)
       (\<lambda>sql. [(DEBUG, ''  update sql: '' @ sql), (DEBUG, ''  update parameters: '')])
       (\<lambda>s res. oset save ''_affectedRows'' (packet_value (affectedRows res)))
       [(DEBUG, entity self @ '' update results:'')] self w"
  by (simp add: update_def chain_def LOGGER_as_log_lines split: prod.splits outcome.splits sum.splits)

lemma deleteOne_chain:
  "deleteOne toDelete self w =
     chain (entity self @ '' delete...'') (entity self @ '' deleteOne error. Details:\<newline>'') id
       (\<lambda>s. Inr (deleteOne_query s toDelete))
       (\<lambda>sql. [(DEBUG, ''  deleteOne sql: '' @ sql), (DEBUG, ''  deleteOne parameters: '')])
       (\<lambda>s res. oset toDelete ''_affectedRows'' (packet_value (affectedRows res)))
       [(DEBUG, entity self @ '' deleteOne results:'')] self w"
  by (simp add: deleteOne_def chain_def LOGGER_as_log_lines
      split: prod.splits outcome.splits sum.splits)

lemma delete_chain:
  "delete idv self w =
     chain (entity self @ '' delete...'') (entity self @ '' delete error. Details:\<newline>'') id
       (\<lambda>s. Inr (delete_query s idv))
       (\<lambda>sql. [(DEBUG, ''  delete sql: '' @ sql), (DEBUG, ''  delete parameters: '')])
       (\<lambda>s res. [(''_affectedRows'', packet_value (affectedRows res))])
       [(DEBUG, entity self @ '' delete results:'')] self w"
  by (simp add: delete_def chain_def LOGGER_as_log_lines split: prod.splits outcome.splits sum.splits)

lemma deleteMatching_chain:
  "deleteMatching criteria self w =
     chain (entity self @ '' delete...'')
       (entity self @ '' deleteMatching error. Details:\<newline>'') (\<lambda>err. Reason (err_code err))
       (\<lambda>s. deleteMatching_query s criteria)
       (\<lambda>sql. [(DEBUG, ''  deleteMatching sql: '' @ sql),
               (DEBUG, ''  deleteMatching parameters: '')])
       (\<lambda>s res. oset criteria ''_affectedRows'' (packet_value (affectedRows res)))
       [(DEBUG, entity self @ '' deleteMatching results:'')] self w"
  by (simp add: deleteMatching_def chain_def LOGGER_as_log_lines
      split: prod.splits outcome.splits sum.splits)

lemma deleteWhere_chain:
  "deleteWhere wh parms self w =
     chain (entity self @ '' deleteWhere...'')
       (entity self @ '' deleteWhere error. Details:\<newline>'') (\<lambda>err. Reason (err_code err))
       (\<lambda>s. Inr (deleteWhere_query s wh parms))
       (\<lambda>sql. [(DEBUG, ''  deleteWhere sql: '' @ sql), (DEBUG, ''  deleteWhere parameters: '')])
       (\<lambda>s res. [(''_affectedRows'', packet_value (affectedRows res))])
       [(DEBUG, entity self @ '' deleteWhere results:'')] self w"
  by (simp add: deleteWhere_def chain_def LOGGER_as_log_lines
      split: prod.splits outcome.splits sum.splits)

lemma settle_with_chain:
  "settle_with f (chain start errmsg rej build pre shape post self w) =
     chain start errmsg rej build pre (\<lambda>s res. f (shape s res)) post self w"
  by (simp add: settle_with_def chain_def split: prod.splits outcome.splits sum.splits)

lemmas run_chain =
  get_chain all_chain find_rows_chain one_row_chain selectWhere_chain create_chain update_chain
  deleteOne_chain delete_chain deleteMatching_chain deleteWhere_chain settle_with_chain

section \<open>What the shared shape does\<close>

lemma chain_loaded:
  assumes "metadata self = Some md"
    and "\<And>sql ps. build self = Inr (sql, ps) \<Longrightarrow> sql \<noteq> show_columns_sql self"
    and "chain start errmsg rej build pre shape post self w = (out, self1, w1)"
  shows "self1 = self \<and> (\<exists>new. exchanges w1 = exchanges w @ new \<and> introspections self new = [])"
  using assms
  by (auto simp: chain_def fetchMetadata_eq callDb_eq split: sum.splits prod.splits)

lemma chain_fresh:
  assumes "metadata self = None"
    and "pool self (exchanges w) (show_columns_sql self) [] = Inr res"
    and "\<And>s sql ps. build s = Inr (sql, ps) \<Longrightarrow> sql \<noteq> show_columns_sql s"
    and "chain start errmsg rej build pre shape post self w = (out, self1, w1)"
  shows "self1 = self\<lparr>metadata := Some (map (column_of_item (options self)) (rows res))\<rparr>
     \<and> (\<exists>new. exchanges w1 = exchanges w @ (show_columns_sql self, [], Inr res) # new
            \<and> introspections self new = [])"
proof -
  have "\<And>sql ps.
      build (self\<lparr>metadata := Some (map (column_of_item (options self)) (rows res))\<rparr>)
        = Inr (sql, ps) \<Longrightarrow> sql \<noteq> show_columns_sql self"
    using assms(3) [of "self\<lparr>metadata := Some (map (column_of_item (options self)) (rows res))\<rparr>"]
    by simp
  then show ?thesis
    using assms(1,2,4)
    by (auto simp: chain_def fetchMetadata_eq callDb_eq split: sum.splits prod.splits)
qed

lemma chain_failed_load:
  assumes "metadata self = None"
    and "pool self (exchanges w) (show_columns_sql self) [] = Inl e"
    and "chain start errmsg rej build pre shape post self w = (out, self1, w1)"
  shows "self1 = self \<and> exchanges w1 = exchanges w @ [(show_columns_sql self, [], Inl e)]"
  using assms
  by (auto simp: chain_def fetchMetadata_eq callDb_eq split: sum.splits prod.splits)

lemma chain_failure:
  assumes "chain start errmsg rej build pre shape post self w = (out, self1, w1)"
    and "(sql, parms, Inl e) \<in> set (drop (length (exchanges w)) (exchanges w1))"
  shows "out = Rejected (rej (DbErr e))
     \<and> (\<exists>before. exchanges w1 = exchanges w @ before @ [(sql, parms, Inl e)]
            \<and> list_all (\<lambda>x. \<exists>r. snd (snd x) = Inr r) before)
     \<and> (\<exists>ls. logged w1 = ls @ [(ERROR, errmsg)])"
  using assms
  by (auto simp: chain_def fetchMetadata_eq callDb_eq
      split: sum.splits prod.splits option.splits)

lemma chain_loaded_exchanges:
  assumes "metadata self = Some md" and "build self = Inr (sql, parms)"
  shows "exchanges (snd (snd (chain start errmsg rej build pre shape post self w))) =
           exchanges w @ [(sql, parms, pool self (exchanges w) sql parms)]"
  using assms
  by (auto simp: chain_def fetchMetadata_eq callDb_eq split: sum.splits prod.splits)

lemma chain_parms_empty:
  assumes "\<And>s sql ps. build s = Inr (sql, ps) \<Longrightarrow> ps = []"
  shows "list_all (\<lambda>x. fst (snd x) = [])
           (drop (length (exchanges w))
              (exchanges (snd (snd (chain start errmsg rej build pre shape post self w)))))"
proof -
  have "\<And>s sql ps. build s = Inr (sql, ps) \<Longrightarrow> ps = []" by (rule assms)
  then show ?thesis
    by (auto simp: chain_def fetchMetadata_eq callDb_eq
        split: sum.splits prod.splits option.splits)
qed

section \<open>The raw select: claim C9\<close>

text \<open>
  Claim C9. \<^verbatim>\<open>selectWhere(whereClause, parms, opts)\<close> builds a statement that has
  \<^verbatim>\<open>whereClause\<close> as it is after \<^verbatim>\<open>WHERE\<close>, followed by the trailing clauses, and
  the parameter list of the statement is empty whatever \<^verbatim>\<open>parms\<close> is. On a handle
  whose metadata is loaded that statement with no parameter is the one exchange with the
  collaborator; on any handle, every statement the call hands over has no parameter.
\<close>

theorem selectWhere_parms_not_bound:
  assumes "metadata self = Some md"
    and "sql = ''SELECT * FROM '' @ table self @ ''  WHERE '' @ wh @ appendOrderByAndLimit self [] opts"
  shows "selectWhere_query self wh parms opts = (sql, [])
     \<and> exchanges (snd (snd (selectWhere wh parms opts self w)))
         = exchanges w @ [(sql, [], pool self (exchanges w) sql [])]
     \<and> list_all (\<lambda>x. fst (snd x) = [])
         (drop (length (exchanges w'))
            (exchanges (snd (snd (selectWhere wh parms opts self' w')))))"
proof -
  have q: "selectWhere_query self wh parms opts = (sql, [])"
    by (simp add: selectWhere_query_eq assms(2))
  have "exchanges (snd (snd (selectWhere wh parms opts self w)))
         = exchanges w @ [(sql, [], pool self (exchanges w) sql [])]"
    unfolding selectWhere_chain
    by (rule chain_loaded_exchanges [OF assms(1)]) (simp add: q)
  moreover have "list_all (\<lambda>x. fst (snd x) = [])
         (drop (length (exchanges w'))
            (exchanges (snd (snd (selectWhere wh parms opts self' w')))))"
    unfolding selectWhere_chain
    by (rule chain_parms_empty) (simp add: selectWhere_query_def Let_def)
  ultimately show ?thesis using q by simp
qed

theorem selectWhere_parms_not_bound_witness:
  "selectWhere_query (loaded (customers one_row_written) customer_columns)
      ''name like ?'' [JStr ''X%''] None
     = (''SELECT * FROM t_customer  WHERE name like ? ORDER BY id ASC'', [])
   \<and> exchanges (snd (snd (selectWhere ''name like ?'' [JStr ''X%''] None
        (loaded (customers one_row_written) customer_columns) nothing_yet)))
     = [(''SELECT * FROM t_customer  WHERE name like ? ORDER BY id ASC'', [], one_row_written)]"
  using selectWhere_parms_not_bound [of
      "loaded (customers one_row_written) customer_columns"
      "map (column_of_item default_options) customer_columns"
      "''SELECT * FROM t_customer  WHERE name like ? ORDER BY id ASC''"
      "''name like ?''" None "[JStr ''X%'']" nothing_yet nothing_yet
      "loaded (customers one_row_written) customer_columns"]
  by (simp add: example_defs appendOrderByAndLimit_def scripted_pool_def nothing_yet_def)


section \<open>Empty templates and save objects: claim C4\<close>

text \<open>
  Claim C4 says that \<^verbatim>\<open>find\<close> with an empty template fails with a validation error
  before any statement is handed to the collaborator. No operation checks its argument:
  the statement without predicate goes to the engine, and the error of the operation is
  the engine's.
\<close>

theorem empty_template_reaches_engine:
  "find_rows [] None
     (loaded (customers (Inl parse_error)) customer_columns) nothing_yet
   = (Rejected (DbErr parse_error),
      loaded (customers (Inl parse_error)) customer_columns,
      \<lparr>exchanges = [(''SELECT * FROM t_customer  WHERE  ORDER BY id ASC'', [], Inl parse_error)],
       logged = [(DEBUG, ''customer find...''), (TRACE, ''(Metadata already loaded)''),
                 (DEBUG, ''  query sql: SELECT * FROM t_customer  WHERE  ORDER BY id ASC''),
                 (DEBUG, ''  query parms: ''),
                 (ERROR, ''customer find error. Details:\<newline>'')]\<rparr>)"
  by (simp add: find_rows_def fetchMetadata_def callDb_def LOGGER_def find_query_def
      appendOrderByAndLimit_def example_defs scripted_pool_def nothing_yet_def Let_def)

text \<open>
  Claim C4, amended. \<^verbatim>\<open>find\<close> with an empty template and \<^verbatim>\<open>update\<close> with a save
  object that contributes no set clause do not fail by themselves. Once the metadata is
  loaded, \<^verbatim>\<open>SELECT * FROM <table>  WHERE \<close> followed by the trailing clauses,
  respectively \<^verbatim>\<open>UPDATE <table> SET  WHERE <key predicate>\<close> with the key values, is
  handed to the collaborator, and the operation settles as the collaborator answers.
\<close>

theorem empty_template_is_sent:
  assumes "metadata self = Some md"
    and "sel = ''SELECT * FROM '' @ table self @ ''  WHERE '' @ appendOrderByAndLimit self [] opts"
    and "update_loop m self (filter (\<lambda>col. \<not> pk col) md) save ([], []) = Inr ([], ps)"
    and "pk_where_loop save (filter pk md) ([], []) = (wh, parms)"
    and "upd = ''UPDATE '' @ table self @ '' SET  WHERE '' @ wh"
  shows "exchanges (snd (snd (find_rows [] opts self w)))
           = exchanges w @ [(sel, [], pool self (exchanges w) sel [])]
     \<and> fst (find_rows [] opts self w)
           = (case pool self (exchanges w) sel [] of
                Inl err \<Rightarrow> Rejected (DbErr err) | Inr res \<Rightarrow> Resolved res)
     \<and> exchanges (snd (snd (update m save uopts self w)))
           = exchanges w @ [(upd, parms, pool self (exchanges w) upd parms)]
     \<and> fst (update m save uopts self w)
           = (case pool self (exchanges w) upd parms of
                Inl err \<Rightarrow> Rejected (DbErr err)
              | Inr res \<Rightarrow> Resolved (oset save ''_affectedRows'' (packet_value (affectedRows res))))"
proof -
  have f: "find_query self [] opts = (sel, [])"
    by (simp add: find_query_empty assms(2))
  have "ps = []"
    using update_loop_no_sets [OF assms(3)] by simp
  then have u: "update_query m self save = Inr (upd, parms)"
    using assms by (simp add: update_query_def metadata_list_def)
  show ?thesis
    using assms(1) f u
    by (simp add: find_rows_def update_def fetchMetadata_eq callDb_eq split: sum.splits)
qed

theorem empty_template_is_sent_witness:
  "exchanges (snd (snd (find_rows [] None
      (loaded (customers (Inl parse_error)) customer_columns) nothing_yet)))
     = [(''SELECT * FROM t_customer  WHERE  ORDER BY id ASC'', [], Inl parse_error)]
   \<and> fst (find_rows [] None
      (loaded (customers (Inl parse_error)) customer_columns) nothing_yet)
     = Rejected (DbErr parse_error)
   \<and> exchanges (snd (snd (update (\<lambda>v. None) [(''id'', JNum 5)] None
      (loaded (customers (Inl parse_error)) customer_columns) nothing_yet)))
     = [(''UPDATE t_customer SET  WHERE id=?'', [JNum 5], Inl parse_error)]
   \<and> fst (update (\<lambda>v. None) [(''id'', JNum 5)] None
      (loaded (customers (Inl parse_error)) customer_columns) nothing_yet)
     = Rejected (DbErr parse_error)"
  using empty_template_is_sent [of
      "loaded (customers (Inl parse_error)) customer_columns"
      "map (column_of_item default_options) customer_columns"
      "''SELECT * FROM t_customer  WHERE  ORDER BY id ASC''" None
      "\<lambda>v. None" "[(''id'', JNum 5)]" "[]" "''id=?''" "[JNum 5]"
      "''UPDATE t_customer SET  WHERE id=?''" nothing_yet None]
  by (simp add: example_defs appendOrderByAndLimit_def scripted_pool_def nothing_yet_def)


section \<open>Failures of the collaborator: claim C5\<close>

text \<open>
  How a failure of the collaborator comes out of an operation, for all eleven of them: the
  failed call is the last one (nothing is tried again), the last line logged is of error
  severity, and the promise is rejected with the error itself, except by
  \<^verbatim>\<open>deleteMatching\<close> and \<^verbatim>\<open>deleteWhere\<close>, which reject with its \<^verbatim>\<open>code\<close>.
\<close>

lemma failure_forwarded:
  assumes "run m opn self w = (out, self1, w1)"
    and "(sql, parms, Inl e) \<in> set (drop (length (exchanges w)) (exchanges w1))"
  shows "out = Rejected (case opn of
                           DeleteMatching criteria \<Rightarrow> Reason (oget e ''code'')
                         | DeleteWhere wh ps \<Rightarrow> Reason (oget e ''code'')
                         | _ \<Rightarrow> DbErr e)
     \<and> (\<exists>before. exchanges w1 = exchanges w @ before @ [(sql, parms, Inl e)]
            \<and> list_all (\<lambda>x. \<exists>r. snd (snd x) = Inr r) before)
     \<and> (\<exists>ls msg. logged w1 = ls @ [(ERROR, msg)])"
  by (insert assms, cases opn; simp add: run_chain; drule (1) chain_failure; auto)

text \<open>
  Claim C5: every operation, \<^verbatim>\<open>deleteMatching\<close> and \<^verbatim>\<open>deleteWhere\<close> included,
  rejects with exactly the error of the collaborator. When the engine refuses a delete,
  \<^verbatim>\<open>deleteWhere\<close> rejects with the string \<^verbatim>\<open>ER_ROW_IS_REFERENCED_2\<close> where
  \<^verbatim>\<open>delete\<close> rejects with the error object; when the pool cannot be reached,
  \<^verbatim>\<open>deleteMatching\<close> rejects with the string \<^verbatim>\<open>ECONNREFUSED\<close> where
  \<^verbatim>\<open>deleteOne\<close> rejects with the error object.
\<close>

theorem deleteWhere_rejects_with_code:
  "fst (deleteWhere ''owner = ?'' [JNum 7]
          (loaded (customers (Inl row_is_referenced)) customer_columns)
          nothing_yet)
     = Rejected (Reason (JStr ''ER_ROW_IS_REFERENCED_2''))
   \<and> fst (delete (JNum 7)
          (loaded (customers (Inl row_is_referenced)) customer_columns)
          nothing_yet)
     = Rejected (DbErr row_is_referenced)
   \<and> fst (deleteMatching [(''owner'', JNum 7)]
          (new_DbEntity ''t_customer'' ''customer'' None unreachable_pool) nothing_yet)
     = Rejected (Reason (JStr ''ECONNREFUSED''))
   \<and> fst (deleteOne [(''id'', JNum 7)]
          (new_DbEntity ''t_customer'' ''customer'' None unreachable_pool) nothing_yet)
     = Rejected (DbErr [(''code'', JStr ''ECONNREFUSED'')])"
  by (simp add: deleteWhere_def delete_def deleteMatching_def deleteOne_def fetchMetadata_eq
      callDb_eq deleteWhere_query_def delete_query_def example_defs scripted_pool_def
      unreachable_pool_def row_is_referenced_def nothing_yet_def show_columns_sql_def
      fetchMetadata_def)


section \<open>One load per handle: claim C8\<close>

lemma run_loaded:
  assumes "run m opn self w = (out, self1, w1)" and "metadata self = Some md"
  shows "self1 = self \<and> (\<exists>new. exchanges w1 = exchanges w @ new \<and> introspections self new = [])"
  by (insert assms, cases opn; simp add: run_chain; erule chain_loaded [rotated 2];
      auto simp: deleteMatching_query_def dest: not_show)

lemma run_fresh:
  assumes "run m opn self w = (out, self1, w1)" and "metadata self = None"
    and "pool self (exchanges w) (show_columns_sql self) [] = Inr res"
  shows "self1 = self\<lparr>metadata := Some (map (column_of_item (options self)) (rows res))\<rparr>
     \<and> (\<exists>new. exchanges w1 = exchanges w @ (show_columns_sql self, [], Inr res) # new
            \<and> introspections self new = [])"
  by (insert assms, cases opn; simp add: run_chain; erule chain_fresh [rotated 3];
      auto simp: deleteMatching_query_def dest: not_show)

text \<open>A load that fails leaves the cache as it was: the next operation asks again.\<close>

lemma run_failed_load:
  assumes "run m opn self w = (out, self1, w1)" and "metadata self = None"
    and "pool self (exchanges w) (show_columns_sql self) [] = Inl e"
  shows "self1 = self \<and> exchanges w1 = exchanges w @ [(show_columns_sql self, [], Inl e)]"
  by (insert assms, cases opn; simp add: run_chain; erule chain_failed_load [rotated 2]; simp)

lemma run_all_loaded:
  assumes "run_all m ops self w = (outs, self1, w1)" and "metadata self = Some md"
  shows "self1 = self \<and> (\<exists>new. exchanges w1 = exchanges w @ new \<and> introspections self new = [])"
  using assms
proof (induction ops arbitrary: self w outs self1 w1)
  case Nil
  then show ?case by simp
next
  case (Cons opn ops)
  obtain r s' w' where r: "run m opn self w = (r, s', w')"
    by (cases "run m opn self w") auto
  obtain rs s'' w'' where rs: "run_all m ops s' w' = (rs, s'', w'')"
    by (cases "run_all m ops s' w'") auto
  from Cons.prems(1) r rs have eq: "self1 = s''" "w1 = w''" by simp_all
  from run_loaded [OF r Cons.prems(2)] obtain new1 where
    s': "s' = self" and n1: "exchanges w' = exchanges w @ new1" "introspections self new1 = []"
    by blast
  from Cons.IH [OF rs] Cons.prems(2) s' obtain new2 where
    s'': "s'' = self" and n2: "exchanges w'' = exchanges w' @ new2" "introspections self new2 = []"
    by blast
  show ?case
    using eq s'' n1 n2 by simp
qed

text \<open>
  Claim C8. On a handle used by one operation after the other, when the introspection call
  of the first operation succeeds, that call is the only introspection call of the whole
  sequence, whatever the operations are and however they settle, and the cache holds the
  columns parsed from its answer from then on.
\<close>

theorem introspection_once:
  assumes "metadata self = None"
    and "pool self (exchanges w) (show_columns_sql self) [] = Inr res"
    and "run_all m (opn # rest) self w = (outs, self1, w1)"
  shows "introspections self (drop (length (exchanges w)) (exchanges w1))
           = [(show_columns_sql self, [], Inr res)]
     \<and> metadata self1 = Some (map (column_of_item (options self)) (rows res))"
proof -
  obtain r s' w' where r: "run m opn self w = (r, s', w')"
    by (cases "run m opn self w") auto
  obtain rs s'' w'' where rs: "run_all m rest s' w' = (rs, s'', w'')"
    by (cases "run_all m rest s' w'") auto
  from assms(3) r rs have eq: "self1 = s''" "w1 = w''" by simp_all
  let ?md = "map (column_of_item (options self)) (rows res)"
  from run_fresh [OF r assms(1) assms(2)] obtain new1 where
    s': "s' = self\<lparr>metadata := Some ?md\<rparr>"
    and n1: "exchanges w' = exchanges w @ (show_columns_sql self, [], Inr res) # new1"
      "introspections self new1 = []"
    by blast
  have md': "metadata s' = Some ?md" using s' by simp
  from run_all_loaded [OF rs md'] obtain new2 where
    s'': "s'' = s'" and n2: "exchanges w'' = exchanges w' @ new2" "introspections s' new2 = []"
    by blast
  have "introspections s' new2 = introspections self new2"
    using s' by (simp add: introspections_def)
  with n2 have "introspections self new2 = []" by simp
  then show ?thesis
    using eq s'' s' n1 n2 by simp
qed

theorem introspection_once_witness:
  "metadata (customers one_row_written) = None
   \<and> introspections (customers one_row_written)
       (drop (length (exchanges nothing_yet))
          (exchanges (snd (snd (run_all (\<lambda>v. None)
             [Get (JNum 5), Update [(''id'', JNum 5), (''name'', JStr ''X'')] None, Get (JNum 5)]
             (customers one_row_written) nothing_yet)))))
     = [(''SHOW COLUMNS FROM t_customer;'', [],
         Inr \<lparr>rows = customer_columns, affectedRows = None, insertId = None\<rparr>)]
   \<and> metadata (fst (snd (run_all (\<lambda>v. None)
             [Get (JNum 5), Update [(''id'', JNum 5), (''name'', JStr ''X'')] None, Get (JNum 5)]
             (customers one_row_written) nothing_yet)))
     = Some (map (column_of_item default_options) customer_columns)"
  using introspection_once [of "customers one_row_written" nothing_yet
      "\<lparr>rows = customer_columns, affectedRows = None, insertId = None\<rparr>"
      "\<lambda>v. None" "Get (JNum 5)"
      "[Update [(''id'', JNum 5), (''name'', JStr ''X'')] None, Get (JNum 5)]"
      "fst (run_all (\<lambda>v. None)
         [Get (JNum 5), Update [(''id'', JNum 5), (''name'', JStr ''X'')] None, Get (JNum 5)]
         (customers one_row_written) nothing_yet)"
      "fst (snd (run_all (\<lambda>v. None)
         [Get (JNum 5), Update [(''id'', JNum 5), (''name'', JStr ''X'')] None, Get (JNum 5)]
         (customers one_row_written) nothing_yet))"
      "snd (snd (run_all (\<lambda>v. None)
         [Get (JNum 5), Update [(''id'', JNum 5), (''name'', JStr ''X'')] None, Get (JNum 5)]
         (customers one_row_written) nothing_yet))"]
  by (simp add: customers_def new_DbEntity_def scripted_pool_def nothing_yet_def
      show_columns_sql_def del: run_all.simps)

section \<open>Callers that overlap on the first load: claim C10\<close>

lemma steps_append: "steps (es @ fs) s = steps fs (steps es s)"
  by (induction es arbitrary: s) simp_all

text \<open>Used alone, a call of \<^verbatim>\<open>fetchMetadata\<close> is an invocation followed by the
  delivery of its answer.\<close>

lemma fetchMetadata_as_steps:
  assumes "in_flight s = []"
  shows "steps [Invoke, Deliver] s =
     (case fetchMetadata (handle s) (outside s) of
        (out, self1, w1) \<Rightarrow> s\<lparr>handle := self1, outside := w1, settled := settled s @ [out]\<rparr>)"
  using assms
  by (cases "metadata (handle s)")
     (auto simp: fetchMetadata_def callDb_eq split: sum.splits prod.splits)

lemma step_Invoke_fresh:
  assumes "metadata (handle s) = None"
  shows "step Invoke s =
     s\<lparr>outside := (outside s)\<lparr>exchanges := exchanges (outside s) @
          [(show_columns_sql (handle s), [],
            pool (handle s) (exchanges (outside s)) (show_columns_sql (handle s)) [])]\<rparr>,
       in_flight := in_flight s @
          [pool (handle s) (exchanges (outside s)) (show_columns_sql (handle s)) []]\<rparr>"
  using assms by (simp add: callDb_eq)

lemma invokes_fresh:
  assumes "metadata (handle s) = None"
  shows "\<exists>new. length new = n
     \<and> list_all (\<lambda>x. fst x = show_columns_sql (handle s) \<and> fst (snd x) = []) new
     \<and> steps (replicate n Invoke) s =
         s\<lparr>outside := (outside s)\<lparr>exchanges := exchanges (outside s) @ new\<rparr>,
           in_flight := in_flight s @ map (\<lambda>x. snd (snd x)) new\<rparr>"
  using assms
proof (induction n arbitrary: s)
  case 0
  then show ?case by simp
next
  case (Suc n)
  let ?r = "pool (handle s) (exchanges (outside s)) (show_columns_sql (handle s)) []"
  let ?x = "(show_columns_sql (handle s), [], ?r)"
  let ?s1 = "step Invoke s"
  have s1: "?s1 = s\<lparr>outside := (outside s)\<lparr>exchanges := exchanges (outside s) @ [?x]\<rparr>,
       in_flight := in_flight s @ [?r]\<rparr>"
    by (rule step_Invoke_fresh [OF Suc.prems])
  then have "metadata (handle ?s1) = None"
    using Suc.prems by simp
  from Suc.IH [OF this] obtain new where
    new: "length new = n"
      "list_all (\<lambda>x. fst x = show_columns_sql (handle ?s1) \<and> fst (snd x) = []) new"
      "steps (replicate n Invoke) ?s1 =
         ?s1\<lparr>outside := (outside ?s1)\<lparr>exchanges := exchanges (outside ?s1) @ new\<rparr>,
           in_flight := in_flight ?s1 @ map (\<lambda>x. snd (snd x)) new\<rparr>"
    by blast
  have h: "handle ?s1 = handle s" using s1 by simp
  have "length (?x # new) = Suc n" using new(1) by simp
  moreover have
    "list_all (\<lambda>x. fst x = show_columns_sql (handle s) \<and> fst (snd x) = []) (?x # new)"
    using new(2) h by simp
  moreover have "steps (replicate (Suc n) Invoke) s =
         s\<lparr>outside := (outside s)\<lparr>exchanges := exchanges (outside s) @ (?x # new)\<rparr>,
           in_flight := in_flight s @ map (\<lambda>x. snd (snd x)) (?x # new)\<rparr>"
    using new(3) s1 by simp
  ultimately show ?case by blast
qed

lemma step_Deliver_Cons:
  assumes "in_flight s = r # rest"
  shows "in_flight (step Deliver s) = rest"
    and "options (handle (step Deliver s)) = options (handle s)"
    and "exchanges (outside (step Deliver s)) = exchanges (outside s)"
    and "settled (step Deliver s) = settled s @
           [case r of
              Inl e \<Rightarrow> Rejected (DbErr e)
            | Inr res \<Rightarrow> Resolved (map (column_of_item (options (handle s))) (rows res))]"
  using assms
  by (auto simp: fetchMetadata_then_def fetchMetadata_catch_def Let_def split: sum.splits)

lemma delivers:
  assumes "in_flight s = rs"
  shows "in_flight (steps (replicate (length rs) Deliver) s) = []
     \<and> exchanges (outside (steps (replicate (length rs) Deliver) s)) = exchanges (outside s)
     \<and> settled (steps (replicate (length rs) Deliver) s) =
         settled s @ map (\<lambda>r. case r of
                                 Inl e \<Rightarrow> Rejected (DbErr e)
                               | Inr res \<Rightarrow>
                                   Resolved (map (column_of_item (options (handle s))) (rows res))) rs"
  using assms
proof (induction rs arbitrary: s)
  case Nil
  then show ?case by simp
next
  case (Cons r rs)
  note d = step_Deliver_Cons [OF Cons.prems]
  from Cons.IH [OF d(1)] show ?case
    by (simp add: d del: step.simps)
qed

text \<open>
  Claim C10 says that callers that overlap on the first load share one introspection call.
  \<^verbatim>\<open>fetchMetadata\<close> looks at the cache only, which is empty until the first answer has
  been delivered: two callers that start before that make two calls.
\<close>

theorem two_callers_two_introspections:
  "exchanges (outside (steps [Invoke, Invoke, Deliver, Deliver] first_use))
   = [(''SHOW COLUMNS FROM t_customer;'', [],
       Inr \<lparr>rows = customer_columns, affectedRows = None, insertId = None\<rparr>),
      (''SHOW COLUMNS FROM t_customer;'', [],
       Inr \<lparr>rows = customer_columns, affectedRows = None, insertId = None\<rparr>)]"
  by (simp add: first_use_def customers_def new_DbEntity_def scripted_pool_def nothing_yet_def
      callDb_eq show_columns_sql_def fetchMetadata_then_def Let_def LOGGER_def)

text \<open>
  Claim C10, amended. When \<open>n\<close> callers start on a handle whose metadata is not loaded,
  before any answer is delivered, \<open>n\<close> introspection calls are made, one for each
  caller. Each caller's promise settles with the whole sequence parsed from the answer to
  its own call, or with the error of that call: no caller sees a sequence that is partly
  filled, and the callers receive the same sequence when the collaborator gives them the
  same answer.
\<close>

theorem overlapping_callers:
  assumes "metadata (handle s) = None" and "in_flight s = []"
  shows "\<exists>new. length new = n
     \<and> list_all (\<lambda>x. fst x = show_columns_sql (handle s) \<and> fst (snd x) = []) new
     \<and> exchanges (outside (steps (replicate n Invoke @ replicate n Deliver) s))
         = exchanges (outside s) @ new
     \<and> settled (steps (replicate n Invoke @ replicate n Deliver) s)
         = settled s @ map (\<lambda>x. case snd (snd x) of
                                   Inl e \<Rightarrow> Rejected (DbErr e)
                                 | Inr res \<Rightarrow>
                                     Resolved (map (column_of_item (options (handle s))) (rows res))) new"
proof -
  from invokes_fresh [OF assms(1), of n] obtain new where
    new: "length new = n"
      "list_all (\<lambda>x. fst x = show_columns_sql (handle s) \<and> fst (snd x) = []) new"
      "steps (replicate n Invoke) s =
         s\<lparr>outside := (outside s)\<lparr>exchanges := exchanges (outside s) @ new\<rparr>,
           in_flight := in_flight s @ map (\<lambda>x. snd (snd x)) new\<rparr>"
    by blast
  let ?s1 = "steps (replicate n Invoke) s"
  have fl: "in_flight ?s1 = map (\<lambda>x. snd (snd x)) new"
    using new(3) assms(2) by simp
  have h: "handle ?s1 = handle s"
    using new(3) by simp
  have len: "replicate n Deliver = replicate (length (map (\<lambda>x. snd (snd x)) new)) Deliver"
    using new(1) by simp
  from delivers [OF fl, unfolded h] have
    "exchanges (outside (steps (replicate n Deliver) ?s1)) = exchanges (outside ?s1)"
    "settled (steps (replicate n Deliver) ?s1) =
       settled ?s1 @ map (\<lambda>r. case r of
                                 Inl e \<Rightarrow> Rejected (DbErr e)
                               | Inr res \<Rightarrow>
                                   Resolved (map (column_of_item (options (handle s))) (rows res)))
                       (map (\<lambda>x. snd (snd x)) new)"
    unfolding len by simp_all
  then have "exchanges (outside (steps (replicate n Invoke @ replicate n Deliver) s))
         = exchanges (outside s) @ new"
    and "settled (steps (replicate n Invoke @ replicate n Deliver) s)
         = settled s @ map (\<lambda>x. case snd (snd x) of
                                   Inl e \<Rightarrow> Rejected (DbErr e)
                                 | Inr res \<Rightarrow>
                                     Resolved (map (column_of_item (options (handle s))) (rows res))) new"
    using new(3) assms(2) by (simp_all add: steps_append comp_def h)
  with new(1,2) show ?thesis by blast
qed

theorem overlapping_callers_witness:
  "metadata (handle first_use) = None \<and> in_flight first_use = []
   \<and> (\<exists>new. length new = 2
     \<and> list_all (\<lambda>x. fst x = show_columns_sql (handle first_use) \<and> fst (snd x) = []) new
     \<and> exchanges (outside (steps (replicate 2 Invoke @ replicate 2 Deliver) first_use))
         = exchanges (outside first_use) @ new
     \<and> settled (steps (replicate 2 Invoke @ replicate 2 Deliver) first_use)
         = settled first_use
           @ map (\<lambda>x. case snd (snd x) of
                        Inl e \<Rightarrow> Rejected (DbErr e)
                      | Inr res \<Rightarrow>
                          Resolved (map (column_of_item (options (handle first_use))) (rows res)))
               new)"
proof -
  have fresh: "metadata (handle first_use) = None" "in_flight first_use = []"
    by (simp_all add: first_use_def customers_def new_DbEntity_def)
  from overlapping_callers [OF fresh, of 2] fresh show ?thesis
    by blast
qed

end
